theory Spec2Isabelle
  imports Complex_Main
begin

section \<open>JavaScript values\<close>

text \<open>
  The gateway is the Express server with the two endpoints \<^verbatim>\<open>/sse\<close> and
  \<^verbatim>\<open>/tool_call\<close>. A JavaScript string is a sequence of UTF-16 code units, and its
  \<^verbatim>\<open>length\<close> is their number; a code unit is a natural number here. \<open>str\<close> turns
  a literal of the source (all of them are ASCII) into such a string.
\<close>

type_synonym jstring = "nat list"

definition str :: "string \<Rightarrow> jstring" where
  "str s = map of_char s"

text \<open>
  Request bodies, tool parameters and event payloads are JSON values; a field that is
  absent reads as \<^verbatim>\<open>undefined\<close>. A number coming from JSON is the finite double it
  parses to, a rational here.
\<close>

datatype json =
    JUndefined
  | JNull
  | JBool bool
  | JNum rat
  | JStr jstring
  | JArr "json list"
  | JObj "(jstring \<times> json) list"

text \<open>JavaScript truthiness, as \<^verbatim>\<open>!x\<close> and \<^verbatim>\<open>x || y\<close> use it.\<close>

fun truthy :: "json \<Rightarrow> bool" where
  "truthy JUndefined = False"
| "truthy JNull = False"
| "truthy (JBool b) = b"
| "truthy (JNum n) = (n \<noteq> 0)"
| "truthy (JStr s) = (s \<noteq> [])"
| "truthy (JArr xs) = True"
| "truthy (JObj fs) = True"

definition js_or :: "json \<Rightarrow> json \<Rightarrow> json" where
  "js_or a b = (if truthy a then a else b)"

text \<open>Reading a property: \<^verbatim>\<open>o.k\<close>, and the destructuring of \<^verbatim>\<open>req.body\<close>.\<close>

fun get_prop :: "json \<Rightarrow> jstring \<Rightarrow> json" where
  "get_prop (JObj fs) k = (case map_of fs k of Some v \<Rightarrow> v | None \<Rightarrow> JUndefined)"
| "get_prop v k = JUndefined"

text \<open>
  \<^verbatim>\<open>m.set(k, v)\<close> on a \<^verbatim>\<open>Map\<close> and the assignment \<^verbatim>\<open>o.k = v\<close> on an object: a
  key that is there keeps its place and takes the new value, a new key goes to the end.
\<close>

fun map_set :: "'k \<Rightarrow> 'v \<Rightarrow> ('k \<times> 'v) list \<Rightarrow> ('k \<times> 'v) list" where
  "map_set k v [] = [(k, v)]"
| "map_set k v ((k', v') # fs) = (if k' = k then (k, v) # fs else (k', v') # map_set k v fs)"

fun set_prop :: "json \<Rightarrow> jstring \<Rightarrow> json \<Rightarrow> json" where
  "set_prop (JObj fs) k v = JObj (map_set k v fs)"
| "set_prop j k v = j"

text \<open>
  What the language runtime does and the repository does not define:
  \<^verbatim>\<open>JSON.stringify\<close>, the conversion of a number to a string, and
  \<^verbatim>\<open>String.prototype.toUpperCase\<close>.
\<close>

record js_runtime =
  JSON_stringify :: "json \<Rightarrow> jstring"
  Number_toString :: "rat \<Rightarrow> jstring"
  String_toUpperCase :: "jstring \<Rightarrow> jstring"

text \<open>\<^verbatim>\<open>xs.join(sep)\<close> on an array of strings.\<close>

fun join :: "'a list \<Rightarrow> 'a list list \<Rightarrow> 'a list" where
  "join sep [] = []"
| "join sep [x] = x"
| "join sep (x # y # ys) = x @ sep @ join sep (y # ys)"

text \<open>All the results, or nothing when one of the steps has thrown.\<close>

fun all_or_none :: "'a option list \<Rightarrow> 'a list option" where
  "all_or_none [] = Some []"
| "all_or_none (None # xs) = None"
| "all_or_none (Some x # xs) = (case all_or_none xs of None \<Rightarrow> None | Some ys \<Rightarrow> Some (x # ys))"

text \<open>
  A value interpolated in a template literal, \<^verbatim>\<open>`${v}`\<close>: the string, or \<open>None\<close>
  when the conversion throws a \<^verbatim>\<open>TypeError\<close>. An object parsed from JSON converts to
  \<^verbatim>\<open>[object Object]\<close> unless it has a property \<^verbatim>\<open>toString\<close> of its own: that
  property is not a function, and \<^verbatim>\<open>valueOf\<close> (its own or the inherited one) gives
  no primitive, so the conversion throws. An array joins the conversions of its elements
  with commas, \<^verbatim>\<open>null\<close> giving the empty string.
\<close>

fun template :: "js_runtime \<Rightarrow> json \<Rightarrow> jstring option" where
  "template rt (JStr s) = Some s"
| "template rt JUndefined = Some (str ''undefined'')"
| "template rt JNull = Some (str ''null'')"
| "template rt (JBool b) = Some (if b then str ''true'' else str ''false'')"
| "template rt (JNum x) = Some (Number_toString rt x)"
| "template rt (JObj fs) =
     (if map_of fs (str ''toString'') \<noteq> None then None else Some (str ''[object Object]''))"
| "template rt (JArr xs) =
     (case all_or_none
             (map (\<lambda>x. if x = JNull \<or> x = JUndefined then Some [] else template rt x) xs) of
        None \<Rightarrow> None
      | Some parts \<Rightarrow> Some (join (str '','') parts))"

definition digit_char :: "nat \<Rightarrow> char" where
  "digit_char d =
     (if d = 0 then CHR ''0'' else if d = 1 then CHR ''1'' else if d = 2 then CHR ''2''
      else if d = 3 then CHR ''3'' else if d = 4 then CHR ''4'' else if d = 5 then CHR ''5''
      else if d = 6 then CHR ''6'' else if d = 7 then CHR ''7'' else if d = 8 then CHR ''8''
      else CHR ''9'')"

text \<open>The decimal digits of a non-negative integer, as \<^verbatim>\<open>`${Date.now()}`\<close> prints them.\<close>

fun string_of_nat :: "nat \<Rightarrow> string" where
  "string_of_nat n =
     (if n < 10 then [digit_char n]
      else string_of_nat (n div 10) @ [digit_char (n mod 10)])"

declare string_of_nat.simps [simp del]

definition string_of_int :: "int \<Rightarrow> string" where
  "string_of_int i = (if i < 0 then ''-'' @ string_of_nat (nat (- i)) else string_of_nat (nat i))"


section \<open>Parameter schemas\<close>

text \<open>
  The schemas are zod (version 3) objects. The model has the types the server names in
  \<^verbatim>\<open>zodToJsonSchemaProperty\<close>, with the checks the registered tools use:
  \<^verbatim>\<open>z.string().length(n)\<close>, \<^verbatim>\<open>z.number().min(a).max(b)\<close>,
  \<^verbatim>\<open>.optional()\<close>, \<^verbatim>\<open>.default(v)\<close>, \<^verbatim>\<open>.describe(d)\<close>. Any other zod
  type is \<open>ZodOther\<close>, with its \<^verbatim>\<open>typeName\<close> and its own validator. The last
  argument of each constructor is \<^verbatim>\<open>_def.description\<close>.
\<close>

datatype str_check = StrLength nat

datatype num_check = NumMin int | NumMax int

datatype zodType =
    ZodString "str_check list" "jstring option"
  | ZodNumber "num_check list" "jstring option"
  | ZodBoolean "jstring option"
  | ZodOptional zodType "jstring option"
  | ZodDefault zodType json "jstring option"
  | ZodOther jstring "json \<Rightarrow> jstring list" "jstring option"

fun zdescription :: "zodType \<Rightarrow> jstring option" where
  "zdescription (ZodString cs d) = d"
| "zdescription (ZodNumber cs d) = d"
| "zdescription (ZodBoolean d) = d"
| "zdescription (ZodOptional t d) = d"
| "zdescription (ZodDefault t v d) = d"
| "zdescription (ZodOther n f d) = d"

text \<open>\<^verbatim>\<open>_def.typeName\<close>.\<close>

fun typeName :: "zodType \<Rightarrow> jstring" where
  "typeName (ZodString cs d) = str ''ZodString''"
| "typeName (ZodNumber cs d) = str ''ZodNumber''"
| "typeName (ZodBoolean d) = str ''ZodBoolean''"
| "typeName (ZodOptional t d) = str ''ZodOptional''"
| "typeName (ZodDefault t v d) = str ''ZodDefault''"
| "typeName (ZodOther n f d) = n"

text \<open>\<^verbatim>\<open>t.describe(d)\<close>: the same type with the description replaced.\<close>

fun describe :: "jstring \<Rightarrow> zodType \<Rightarrow> zodType" where
  "describe d (ZodString cs _) = ZodString cs (Some d)"
| "describe d (ZodNumber cs _) = ZodNumber cs (Some d)"
| "describe d (ZodBoolean _) = ZodBoolean (Some d)"
| "describe d (ZodOptional t _) = ZodOptional t (Some d)"
| "describe d (ZodDefault t v _) = ZodDefault t v (Some d)"
| "describe d (ZodOther n f _) = ZodOther n f (Some d)"

text \<open>\<^verbatim>\<open>t.optional()\<close>: the wrapper takes over the description \<open>t\<close> has so far.\<close>

definition optional :: "zodType \<Rightarrow> zodType" where
  "optional t = ZodOptional t (zdescription t)"

text \<open>
  The shape of a \<^verbatim>\<open>z.object\<close>: its fields in the order in which
  \<^verbatim>\<open>for (const key in schema.shape)\<close> and zod itself visit them.
\<close>

type_synonym zodObject = "(jstring \<times> zodType) list"

text \<open>The name zod gives the type of a received value in its messages.\<close>

fun parsedType :: "json \<Rightarrow> string" where
  "parsedType JUndefined = ''undefined''"
| "parsedType JNull = ''null''"
| "parsedType (JBool b) = ''boolean''"
| "parsedType (JNum n) = ''number''"
| "parsedType (JStr s) = ''string''"
| "parsedType (JArr xs) = ''array''"
| "parsedType (JObj fs) = ''object''"

definition invalid_type :: "string \<Rightarrow> json \<Rightarrow> jstring" where
  "invalid_type expected v =
     (if v = JUndefined then str ''Required''
      else str (''Expected '' @ expected @ '', received '' @ parsedType v))"

fun str_check_issues :: "jstring \<Rightarrow> str_check \<Rightarrow> jstring list" where
  "str_check_issues s (StrLength n) =
     (if length s \<noteq> n
      then [str (''String must contain exactly '' @ string_of_nat n @ '' character(s)'')]
      else [])"

fun num_check_issues :: "rat \<Rightarrow> num_check \<Rightarrow> jstring list" where
  "num_check_issues x (NumMin a) =
     (if x < of_int a
      then [str (''Number must be greater than or equal to '' @ string_of_int a)]
      else [])"
| "num_check_issues x (NumMax b) =
     (if of_int b < x
      then [str (''Number must be less than or equal to '' @ string_of_int b)]
      else [])"

text \<open>
  The messages of the issues zod reports for one value, in the order it reports them.
  When the value has the wrong type there is one issue and the checks are not run; when it
  has the right type every check is run, and each failing check adds its issue.
\<close>

fun zod_issues :: "zodType \<Rightarrow> json \<Rightarrow> jstring list" where
  "zod_issues (ZodString cs d) v =
     (case v of JStr s \<Rightarrow> concat (map (str_check_issues s) cs)
      | _ \<Rightarrow> [invalid_type ''string'' v])"
| "zod_issues (ZodNumber cs d) v =
     (case v of JNum x \<Rightarrow> concat (map (num_check_issues x) cs)
      | _ \<Rightarrow> [invalid_type ''number'' v])"
| "zod_issues (ZodBoolean d) v =
     (case v of JBool b \<Rightarrow> [] | _ \<Rightarrow> [invalid_type ''boolean'' v])"
| "zod_issues (ZodOptional t d) v = (if v = JUndefined then [] else zod_issues t v)"
| "zod_issues (ZodDefault t dflt d) v = (if v = JUndefined then zod_issues t dflt else zod_issues t v)"
| "zod_issues (ZodOther n f d) v = f v"

text \<open>The value a valid input parses to: a default is filled in, nothing else changes.\<close>

fun zod_value :: "zodType \<Rightarrow> json \<Rightarrow> json" where
  "zod_value (ZodOptional t d) v = (if v = JUndefined then JUndefined else zod_value t v)"
| "zod_value (ZodDefault t dflt d) v = (if v = JUndefined then zod_value t dflt else zod_value t v)"
| "zod_value t v = v"

text \<open>
  \<^verbatim>\<open>schema.parse(parameters)\<close> for a \<^verbatim>\<open>z.object(shape)\<close>: a \<^verbatim>\<open>ZodError\<close> with
  the messages of all issues (\<open>Inl\<close>), or the validated object (\<open>Inr\<close>). The fields are
  visited in the order of the shape, keys outside the shape are dropped, and a key is in
  the result when its value is defined or the input has the key.
\<close>

definition object_issues :: "zodObject \<Rightarrow> json \<Rightarrow> jstring list" where
  "object_issues shape v =
     (case v of
        JObj fs \<Rightarrow> concat (map (\<lambda>(k, t). zod_issues t (get_prop v k)) shape)
      | _ \<Rightarrow> [invalid_type ''object'' v])"

definition has_key :: "json \<Rightarrow> jstring \<Rightarrow> bool" where
  "has_key v k = (case v of JObj fs \<Rightarrow> map_of fs k \<noteq> None | _ \<Rightarrow> False)"

definition object_value :: "zodObject \<Rightarrow> json \<Rightarrow> json" where
  "object_value shape v =
     JObj (filter (\<lambda>(k, x). x \<noteq> JUndefined \<or> has_key v k)
             (map (\<lambda>(k, t). (k, zod_value t (get_prop v k))) shape))"

definition parse :: "zodObject \<Rightarrow> json \<Rightarrow> jstring list + json" where
  "parse shape v =
     (let issues = object_issues shape v
      in if issues = [] then Inr (object_value shape v) else Inl issues)"


section \<open>Tool registry\<close>

text \<open>
  What awaiting a handler's promise gives: the value it resolves to, the value it rejects
  with (a \<^verbatim>\<open>ZodError\<close> with the messages of its issues, another \<^verbatim>\<open>Error\<close> with its
  message, or anything else), or nothing when the promise never settles.
\<close>

datatype thrown = ZodError "jstring list" | ErrorObj jstring | OtherThrown

datatype outcome = Resolved json | Rejected thrown | Pending

type_synonym ToolHandler = "json \<Rightarrow> outcome"

record ToolDefinition =
  description :: jstring
  schema :: zodObject
  handler :: ToolHandler

text \<open>\<^verbatim>\<open>const tools = new Map<string, ToolDefinition>()\<close>, in insertion order.\<close>

type_synonym tool_map = "(jstring \<times> ToolDefinition) list"

definition registerTool ::
  "jstring \<Rightarrow> jstring \<Rightarrow> zodObject \<Rightarrow> ToolHandler \<Rightarrow> tool_map \<Rightarrow> tool_map" where
  "registerTool name descr sch h tools =
     map_set name \<lparr>description = descr, schema = sch, handler = h\<rparr> tools"

text \<open>A start-up that makes any sequence of \<^verbatim>\<open>registerTool\<close> calls, in order.\<close>

fun register_all :: "(jstring \<times> jstring \<times> zodObject \<times> ToolHandler) list \<Rightarrow> tool_map \<Rightarrow> tool_map" where
  "register_all [] tools = tools"
| "register_all ((name, descr, sch, h) # rs) tools =
     register_all rs (registerTool name descr sch h tools)"


subsection \<open>The weather collaborator\<close>

text \<open>
  \<^verbatim>\<open>fetch\<close> rejects, or gives a response with its \<^verbatim>\<open>ok\<close> flag, its status and
  the body \<^verbatim>\<open>response.json()\<close> gives (\<open>None\<close> when that rejects or gives
  \<^verbatim>\<open>null\<close>).
\<close>

datatype 'a fetch_result = FetchRejected | FetchResponse bool nat "'a option"

definition makeNWSRequest :: "(jstring \<Rightarrow> 'a fetch_result) \<Rightarrow> jstring \<Rightarrow> 'a option" where
  "makeNWSRequest fetch url =
     (case fetch url of
        FetchRejected \<Rightarrow> None
      | FetchResponse ok st body \<Rightarrow> (if \<not> ok then None else body))"

text \<open>
  The declarations of \<^verbatim>\<open>AlertsResponse\<close> and \<^verbatim>\<open>AlertFeature\<close> are in a module
  that is not among the sources; the records have the fields the handler and
  \<^verbatim>\<open>formatAlert\<close> read.
\<close>

record AlertProps =
  event :: "jstring option"
  areaDesc :: "jstring option"
  severity :: "jstring option"
  status :: "jstring option"
  headline :: "jstring option"

record AlertFeature =
  properties :: AlertProps

record AlertsResponse =
  features :: "AlertFeature list option"

text \<open>\<^verbatim>\<open>s || d\<close> for an optional string field: absent and empty both give \<open>d\<close>.\<close>

definition str_or :: "jstring option \<Rightarrow> jstring \<Rightarrow> jstring" where
  "str_or s d = (case s of Some x \<Rightarrow> (if x \<noteq> [] then x else d) | None \<Rightarrow> d)"

text \<open>The line feed, \<^verbatim>\<open>"\n"\<close> in the source of the weather module.\<close>

definition newline :: jstring where
  "newline = str [CHR 0x0A]"

text \<open>
  The two characters backslash and \<open>n\<close>: the server writes its separators as the
  string literal \<^verbatim>\<open>'\\n'\<close>.
\<close>

definition backslash_n :: jstring where
  "backslash_n = str [CHR 0x5C, CHR ''n'']"

definition formatAlert :: "AlertFeature \<Rightarrow> jstring" where
  "formatAlert feature =
     (let props = properties feature
      in join newline
           [str ''Event: '' @ str_or (event props) (str ''Unknown''),
            str ''Area: '' @ str_or (areaDesc props) (str ''Unknown''),
            str ''Severity: '' @ str_or (severity props) (str ''Unknown''),
            str ''Status: '' @ str_or (status props) (str ''Unknown''),
            str ''Headline: '' @ str_or (headline props) (str ''No headline''),
            str ''---''])"

definition text_result :: "jstring \<Rightarrow> json" where
  "text_result t = JObj [(str ''type'', JStr (str ''text'')), (str ''text'', JStr t)]"

text \<open>
  The handler of \<^verbatim>\<open>get-alerts\<close>. The schema has made \<^verbatim>\<open>state\<close> a string before
  the handler runs; on anything else \<^verbatim>\<open>state.toUpperCase()\<close> is a \<^verbatim>\<open>TypeError\<close>,
  whose message is the engine's. The separators of the third result are the two
  characters backslash and \<open>n\<close>, as the server's source writes them.
\<close>

definition get_alerts_handler ::
  "js_runtime \<Rightarrow> jstring \<Rightarrow> (jstring \<Rightarrow> AlertsResponse fetch_result) \<Rightarrow> ToolHandler" where
  "get_alerts_handler rt NWS_API_BASE fetch params =
     (case get_prop params (str ''state'') of
        JStr state \<Rightarrow>
          (let stateCode = String_toUpperCase rt state;
               alertsUrl = NWS_API_BASE @ str ''/alerts?area='' @ stateCode
           in case makeNWSRequest fetch alertsUrl of
                None \<Rightarrow> Resolved (text_result (str ''Failed to retrieve alerts data''))
              | Some alertsData \<Rightarrow>
                  (let feats = (case features alertsData of Some fs \<Rightarrow> fs | None \<Rightarrow> [])
                   in if length feats = 0
                      then Resolved (text_result (str ''No active alerts for '' @ stateCode))
                      else Resolved (text_result
                             (str ''Active alerts for '' @ stateCode @ str '':'' @ backslash_n @ backslash_n
                              @ join backslash_n (map formatAlert feats)))))
      | _ \<Rightarrow> Rejected (ErrorObj (str ''state.toUpperCase is not a function'')))"


subsection \<open>The registered tools\<close>

text \<open>
  The handlers of the other three tools format what the forecast and search services
  return; they are taken as they come, with the weather service's base address and its
  \<^verbatim>\<open>fetch\<close>.
\<close>

record collaborators =
  NWS_API_BASE :: jstring
  fetch_alerts :: "jstring \<Rightarrow> AlertsResponse fetch_result"
  get_forecast_handler :: ToolHandler
  brave_web_search_handler :: ToolHandler
  google_search_handler :: ToolHandler

definition get_alerts_schema :: zodObject where
  "get_alerts_schema =
     [(str ''state'', describe (str ''Two-letter state code (e.g. CA, NY)'') (ZodString [StrLength 2] None))]"

definition get_forecast_schema :: zodObject where
  "get_forecast_schema =
     [(str ''latitude'',
         describe (str ''Latitude of the location'') (ZodNumber [NumMin (- 90), NumMax 90] None)),
      (str ''longitude'',
         describe (str ''Longitude of the location'') (ZodNumber [NumMin (- 180), NumMax 180] None))]"

definition brave_web_search_schema :: zodObject where
  "brave_web_search_schema =
     [(str ''query'', describe (str ''The search query'') (ZodString [] None)),
      (str ''count'', describe (str ''Number of results to return (max 20)'')
                       (optional (ZodNumber [NumMin 1, NumMax 20] None)))]"

definition google_search_schema :: zodObject where
  "google_search_schema =
     [(str ''query'', describe (str ''The search query'') (ZodString [] None)),
      (str ''count'', describe (str ''Number of results to return (max 10)'')
                       (optional (ZodNumber [NumMin 1, NumMax 10] None)))]"

definition tools :: "js_runtime \<Rightarrow> collaborators \<Rightarrow> tool_map" where
  "tools rt c =
     register_all
       [(str ''get-alerts'', str ''Get weather alerts for a state'', get_alerts_schema,
           get_alerts_handler rt (NWS_API_BASE c) (fetch_alerts c)),
        (str ''get-forecast'', str ''Get weather forecast for a location'', get_forecast_schema,
           get_forecast_handler c),
        (str ''brave-web-search'', str ''Search the web using Brave Search'', brave_web_search_schema,
           brave_web_search_handler c),
        (str ''google-search'', str ''Search the web using Google Custom Search'', google_search_schema,
           google_search_handler c)]
       []"


section \<open>Capability advertisement\<close>

definition has_description :: "jstring option \<Rightarrow> bool" where
  "has_description d = (case d of Some s \<Rightarrow> s \<noteq> [] | None \<Rightarrow> False)"

definition type_schema :: "jstring \<Rightarrow> jstring option \<Rightarrow> json" where
  "type_schema ty d =
     (if has_description d
      then JObj [(str ''type'', JStr ty),
                 (str ''description'', JStr (case d of Some s \<Rightarrow> s | None \<Rightarrow> []))]
      else JObj [(str ''type'', JStr ty)])"

fun zodToJsonSchemaProperty :: "zodType \<Rightarrow> json" where
  "zodToJsonSchemaProperty (ZodOptional inner d) =
     (let innerSchema = zodToJsonSchemaProperty inner
      in case d of
           Some s \<Rightarrow>
             (if s \<noteq> [] \<and> \<not> truthy (get_prop innerSchema (str ''description''))
              then set_prop innerSchema (str ''description'') (JStr s) else innerSchema)
         | None \<Rightarrow> innerSchema)"
| "zodToJsonSchemaProperty (ZodDefault inner dflt d) =
     (let innerSchema = zodToJsonSchemaProperty inner
      in case d of
           Some s \<Rightarrow>
             (if s \<noteq> [] \<and> \<not> truthy (get_prop innerSchema (str ''description''))
              then set_prop innerSchema (str ''description'') (JStr s) else innerSchema)
         | None \<Rightarrow> innerSchema)"
| "zodToJsonSchemaProperty (ZodString cs d) = type_schema (str ''string'') d"
| "zodToJsonSchemaProperty (ZodNumber cs d) = type_schema (str ''number'') d"
| "zodToJsonSchemaProperty (ZodBoolean d) = type_schema (str ''boolean'') d"
| "zodToJsonSchemaProperty (ZodOther n f d) =
     (if has_description d
      then JObj [(str ''type'', JStr (str ''object'')),
                 (str ''description'', JStr (case d of Some s \<Rightarrow> s | None \<Rightarrow> []))]
      else JObj [(str ''type'', JStr (str ''object'')),
                 (str ''description'', JStr (str ''Complex type: '' @ n))])"

text \<open>The test the handshake makes on a field: an optional or a default marker.\<close>

definition is_optional_or_default :: "zodType \<Rightarrow> bool" where
  "is_optional_or_default t = (typeName t = str ''ZodOptional'' \<or> typeName t = str ''ZodDefault'')"

definition tool_entry :: "jstring \<times> ToolDefinition \<Rightarrow> json" where
  "tool_entry = (\<lambda>(name, td).
     let props = map (\<lambda>(key, fieldSchema). (key, zodToJsonSchemaProperty fieldSchema)) (schema td);
         required = map fst (filter (\<lambda>(key, fieldSchema). \<not> is_optional_or_default fieldSchema) (schema td))
     in JObj [(str ''name'', JStr name),
              (str ''description'', JStr (description td)),
              (str ''parameters'',
                 JObj ([(str ''type'', JStr (str ''object'')), (str ''properties'', JObj props)]
                       @ (if length required > 0 then [(str ''required'', JArr (map JStr required))] else [])))])"

definition mcpHandshakeResponse :: "tool_map \<Rightarrow> json" where
  "mcpHandshakeResponse tls =
     JObj [(str ''type'', JStr (str ''mcp_handshake_response'')),
           (str ''mcp_version'', JStr (str ''1.0'')),
           (str ''server_name'', JStr (str ''MyCustom_MCP_Express_Server'')),
           (str ''server_version'', JStr (str ''1.0.0'')),
           (str ''capabilities'',
              JObj [(str ''tools'', JArr (map tool_entry tls)), (str ''resources'', JObj [])])]"

text \<open>Reading the advertisement back, as a client does.\<close>

definition capability_list :: "json \<Rightarrow> json list" where
  "capability_list hs =
     (case get_prop (get_prop hs (str ''capabilities'')) (str ''tools'') of JArr es \<Rightarrow> es | _ \<Rightarrow> [])"

definition entry_name :: "json \<Rightarrow> json" where
  "entry_name e = get_prop e (str ''name'')"

definition entry_required :: "json \<Rightarrow> json list" where
  "entry_required e =
     (case get_prop (get_prop e (str ''parameters'')) (str ''required'') of JArr ks \<Rightarrow> ks | _ \<Rightarrow> [])"


section \<open>Sessions and the push channel\<close>

text \<open>
  The response object of an open \<^verbatim>\<open>/sse\<close> request: the frames written to it so far,
  how many times \<^verbatim>\<open>write\<close> has been called, and which of these calls throw. The
  server wraps every call of \<^verbatim>\<open>write\<close> in a \<^verbatim>\<open>try\<close>; a channel on which no
  call ever throws is one of the channels.
\<close>

record channel =
  frames :: "jstring list"
  writes :: nat
  throws :: "nat \<Rightarrow> bool"

text \<open>\<^verbatim>\<open>res.write(message)\<close>: the channel afterwards, and whether the call returned.\<close>

definition res_write :: "channel \<Rightarrow> jstring \<Rightarrow> channel \<times> bool" where
  "res_write res message =
     (if throws res (writes res)
      then (res\<lparr>writes := Suc (writes res)\<rparr>, False)
      else (res\<lparr>frames := frames res @ [message], writes := Suc (writes res)\<rparr>, True))"

text \<open>\<^verbatim>\<open>const activeSseClients = new Map<string, Response>()\<close>.\<close>

type_synonym sessions = "jstring \<rightharpoonup> channel"

text \<open>
  What a request handler does to the outside, in the order it does it: a call of
  \<^verbatim>\<open>write\<close> on the channel of a session (with the frame, and whether the call
  returned), \<^verbatim>\<open>res.end()\<close> on a channel, the call of a tool handler (the tool name
  and the validated parameters), the reply \<^verbatim>\<open>res.status(n).json(body)\<close> to the
  \<^verbatim>\<open>/tool_call\<close> request, and a \<^verbatim>\<open>TypeError\<close> thrown outside every
  \<^verbatim>\<open>try\<close> of the handler, which ends it with no reply of its own (what Express
  then does with the request is not in the sources). Log lines and response headers are
  left out.
\<close>

datatype effect =
    SseWrite jstring jstring bool
  | SseEnd jstring
  | HandlerCall json json
  | HttpReply nat json
  | Uncaught

text \<open>
  The frame, built the same way at the three places that write one: the array of
  \<^verbatim>\<open>`id: ${id}`\<close>, \<^verbatim>\<open>`event: ${name}`\<close>, \<^verbatim>\<open>`data: ${json}`\<close> and the empty
  string, joined with the separator, with the separator once more at the end.
\<close>

definition sse_message :: "jstring \<Rightarrow> jstring \<Rightarrow> jstring \<Rightarrow> jstring" where
  "sse_message msgId eventName dataString =
     join backslash_n
       [str ''id: '' @ msgId, str ''event: '' @ eventName, str ''data: '' @ dataString, []]
     @ backslash_n"

text \<open>
  \<^verbatim>\<open>app.get('/sse')\<close>. \<open>t0\<close>, \<open>t1\<close>, \<open>t2\<close> are the three readings of
  \<^verbatim>\<open>Date.now()\<close>, \<open>rnd\<close> is \<^verbatim>\<open>Math.random().toString(36).substring(2, 7)\<close>,
  \<open>handshake\<close> is the constant \<^verbatim>\<open>mcpHandshakeResponse\<close> and \<open>res\<close> the new
  response. The result is the session map, the effects, and whether the handler got as far
  as registering the \<^verbatim>\<open>close\<close> and \<^verbatim>\<open>error\<close> listeners.
\<close>

definition new_client_id :: "nat \<Rightarrow> jstring \<Rightarrow> jstring" where
  "new_client_id t0 rnd = str ''client-'' @ str (string_of_nat t0) @ str ''-'' @ rnd"

definition sse ::
  "js_runtime \<Rightarrow> json \<Rightarrow> nat \<Rightarrow> jstring \<Rightarrow> nat \<Rightarrow> nat \<Rightarrow> channel \<Rightarrow> sessions
     \<Rightarrow> sessions \<times> effect list \<times> bool" where
  "sse rt handshake t0 rnd t1 t2 res activeSseClients =
     (let clientId = new_client_id t0 rnd;
          handshakeId = str ''sse-handshake-'' @ str (string_of_nat t1);
          handshakeMessage = sse_message handshakeId (str ''mcp'') (JSON_stringify rt handshake);
          (res1, ok1) = res_write res handshakeMessage
      in if \<not> ok1
         then (activeSseClients(clientId := None),
               [SseWrite clientId handshakeMessage False, SseEnd clientId], False)
         else
           (let clientIdMessageId = str ''sse-clientid-'' @ str (string_of_nat t2);
                clientIdMessagePayload =
                  JObj [(str ''type'', JStr (str ''client_id_assigned'')),
                        (str ''client_id'', JStr clientId)];
                clientIdMessage =
                  sse_message clientIdMessageId (str ''mcp'') (JSON_stringify rt clientIdMessagePayload);
                (res2, ok2) = res_write res1 clientIdMessage
            in if \<not> ok2
               then (activeSseClients(clientId := None),
                     [SseWrite clientId handshakeMessage True,
                      SseWrite clientId clientIdMessage False, SseEnd clientId], False)
               else (activeSseClients(clientId \<mapsto> res2),
                     [SseWrite clientId handshakeMessage True,
                      SseWrite clientId clientIdMessage True], True)))"

text \<open>
  The three listeners \<^verbatim>\<open>/sse\<close> registers after the two writes: \<^verbatim>\<open>close\<close> and
  \<^verbatim>\<open>error\<close> of the request, \<^verbatim>\<open>error\<close> of the response. Each is
  \<^verbatim>\<open>activeSseClients.delete(clientId)\<close>.
\<close>

definition req_on_close :: "jstring \<Rightarrow> sessions \<Rightarrow> sessions" where
  "req_on_close clientId activeSseClients = activeSseClients(clientId := None)"

definition req_on_error :: "jstring \<Rightarrow> sessions \<Rightarrow> sessions" where
  "req_on_error clientId activeSseClients = activeSseClients(clientId := None)"

definition res_on_error :: "jstring \<Rightarrow> sessions \<Rightarrow> sessions" where
  "res_on_error clientId activeSseClients = activeSseClients(clientId := None)"

text \<open>
  \<^verbatim>\<open>sendSseMessage(clientId, eventName, data, messageIdPrefix)\<close>; \<open>now\<close> is its
  reading of \<^verbatim>\<open>Date.now()\<close>. A throwing \<^verbatim>\<open>write\<close> is caught and logged.
\<close>

definition sendSseMessage ::
  "js_runtime \<Rightarrow> nat \<Rightarrow> sessions \<Rightarrow> jstring \<Rightarrow> jstring \<Rightarrow> json \<Rightarrow> jstring
     \<Rightarrow> sessions \<times> effect list" where
  "sendSseMessage rt now activeSseClients clientId eventName payload messageIdPrefix =
     (case activeSseClients clientId of
        Some clientRes \<Rightarrow>
          (let sseMessageId = messageIdPrefix @ str ''-'' @ str (string_of_nat now);
               message = sse_message sseMessageId eventName (JSON_stringify rt payload);
               (clientRes', ok) = res_write clientRes message
           in (activeSseClients(clientId \<mapsto> clientRes'), [SseWrite clientId message ok]))
      | None \<Rightarrow> (activeSseClients, []))"


section \<open>The invocation endpoint\<close>

text \<open>
  \<^verbatim>\<open>activeSseClients.has(clientId)\<close> and \<^verbatim>\<open>tools.get(tool_name)\<close> on a value of
  the request body: only a string can be a key.
\<close>

definition session_of :: "sessions \<Rightarrow> json \<Rightarrow> jstring option" where
  "session_of activeSseClients clientId =
     (case clientId of
        JStr s \<Rightarrow> (if activeSseClients s \<noteq> None then Some s else None)
      | _ \<Rightarrow> None)"

definition tools_get :: "tool_map \<Rightarrow> json \<Rightarrow> ToolDefinition option" where
  "tools_get tls tool_name = (case tool_name of JStr n \<Rightarrow> map_of tls n | _ \<Rightarrow> None)"

text \<open>
  The \<^verbatim>\<open>catch\<close> block of \<^verbatim>\<open>toolCallHandler\<close>, which receives what
  \<^verbatim>\<open>schema.parse\<close> throws and what the handler rejects with: it chooses the error
  type, the message and the status, pushes the error payload and replies with it.
\<close>

definition catch_block ::
  "js_runtime \<Rightarrow> nat \<Rightarrow> sessions \<Rightarrow> jstring \<Rightarrow> json \<Rightarrow> thrown \<Rightarrow> sessions \<times> effect list" where
  "catch_block rt now activeSseClients clientId messageId err =
     (let (errorType, errorMessage, httpStatus) =
            (case err of
               ZodError issues \<Rightarrow>
                 (str ''invalid_parameters'',
                  str ''Parameter validation failed: '' @ join (str '', '') issues, 400 :: nat)
             | ErrorObj m \<Rightarrow> (str ''tool_error'', m, 500)
             | OtherThrown \<Rightarrow> (str ''tool_error'', str ''Tool execution failed.'', 500));
          errorPayload =
            JObj [(str ''id'', messageId), (str ''type'', JStr (str ''error'')),
                  (str ''error_type'', JStr errorType), (str ''message'', JStr errorMessage)];
          (st1, pushed) =
            sendSseMessage rt now activeSseClients clientId (str ''mcp'') errorPayload (str ''err'')
      in (st1, pushed @ [HttpReply httpStatus errorPayload]))"

text \<open>
  \<^verbatim>\<open>toolCallHandler\<close> on the parsed request body. \<open>now\<close> is the reading of
  \<^verbatim>\<open>Date.now()\<close> in \<^verbatim>\<open>sendSseMessage\<close>; \<open>during_await\<close> is what the rest of
  the server does to the session map while the handler's promise is awaited (sessions may
  close or open in that time). The two messages built with a template literal before the
  \<^verbatim>\<open>try\<close> end the handler when the conversion of the interpolated value throws.
\<close>

definition toolCallHandler ::
  "js_runtime \<Rightarrow> tool_map \<Rightarrow> nat \<Rightarrow> (sessions \<Rightarrow> sessions) \<Rightarrow> sessions \<Rightarrow> json
     \<Rightarrow> sessions \<times> effect list" where
  "toolCallHandler rt tls now during_await activeSseClients body =
     (let messageId = get_prop body (str ''id'');
          tool_name = get_prop body (str ''tool_name'');
          parameters = get_prop body (str ''parameters'');
          clientId = get_prop body (str ''client_id'')
      in if \<not> truthy clientId
         then (activeSseClients,
               [HttpReply 400
                  (JObj [(str ''id'', js_or messageId (JStr (str ''unknown''))),
                         (str ''type'', JStr (str ''error'')),
                         (str ''error_type'', JStr (str ''missing_client_id'')),
                         (str ''message'',
                            JStr (str ''client_id is required in the request body for /tool_call.''))])])
         else
           (case session_of activeSseClients clientId of
              None \<Rightarrow>
                (case template rt clientId of
                   None \<Rightarrow> (activeSseClients, [Uncaught])
                 | Some clientIdText \<Rightarrow>
                     (activeSseClients,
                      [HttpReply 400
                         (JObj [(str ''id'', js_or messageId (JStr (str ''unknown''))),
                                (str ''type'', JStr (str ''error'')),
                                (str ''error_type'', JStr (str ''invalid_client_id'')),
                                (str ''message'',
                                   JStr (str ''No active SSE session found for client_id: '' @ clientIdText
                                         @ str ''. Please connect to /sse first.''))])]))
            | Some cid \<Rightarrow>
                (if \<not> truthy tool_name \<or> tools_get tls tool_name = None
                 then
                   (case template rt tool_name of
                      None \<Rightarrow> (activeSseClients, [Uncaught])
                    | Some toolNameText \<Rightarrow>
                        (let errorPayload =
                               JObj [(str ''id'', messageId), (str ''type'', JStr (str ''error'')),
                                     (str ''error_type'', JStr (str ''unknown_tool'')),
                                     (str ''message'',
                                        JStr (str ''Tool '' @ str [CHR 0x27] @ toolNameText @ str [CHR 0x27]
                                              @ str '' not found.''))];
                             (st1, pushed) =
                               sendSseMessage rt now activeSseClients cid (str ''mcp'') errorPayload (str ''err'')
                         in (st1, pushed @ [HttpReply 400 errorPayload])))
                 else
                   (case tools_get tls tool_name of
                      None \<Rightarrow> (activeSseClients, [])
                    | Some tool \<Rightarrow>
                        (case parse (schema tool) parameters of
                           Inl issues \<Rightarrow>
                             catch_block rt now activeSseClients cid messageId (ZodError issues)
                         | Inr validatedParams \<Rightarrow>
                             (case handler tool validatedParams of
                                Pending \<Rightarrow>
                                  (during_await activeSseClients, [HandlerCall tool_name validatedParams])
                              | Resolved result \<Rightarrow>
                                  (let toolResponseMessage =
                                         JObj [(str ''id'', messageId),
                                               (str ''type'', JStr (str ''tool_response'')),
                                               (str ''tool_name'', tool_name),
                                               (str ''tool_response'', result)];
                                       (st1, pushed) =
                                         sendSseMessage rt now (during_await activeSseClients) cid
                                           (str ''mcp'') toolResponseMessage (str ''toolrsp'')
                                   in (st1,
                                       [HandlerCall tool_name validatedParams] @ pushed
                                       @ [HttpReply 202
                                            (JObj [(str ''id'', messageId),
                                                   (str ''status'', JStr (str ''processing'')),
                                                   (str ''message'',
                                                    JStr (str ''Tool call accepted, response will be sent via SSE.''))])]))
                              | Rejected err \<Rightarrow>
                                  (let (st1, caught) =
                                         catch_block rt now (during_await activeSseClients) cid messageId err
                                   in (st1, [HandlerCall tool_name validatedParams] @ caught))))))))"


section \<open>Notions used in the statements\<close>

text \<open>The distinct elements of a list, in the order of their first occurrence.\<close>

definition first_occurrences :: "'a list \<Rightarrow> 'a list" where
  "first_occurrences xs = rev (remdups (rev xs))"

text \<open>The fields of a schema whose type is neither an optional nor a default wrapper.\<close>

definition required_fields :: "zodObject \<Rightarrow> jstring list" where
  "required_fields shape =
     map fst (filter (\<lambda>(k, t). typeName t \<noteq> str ''ZodOptional'' \<and> typeName t \<noteq> str ''ZodDefault'') shape)"

fun is_reply :: "effect \<Rightarrow> bool" where
  "is_reply (HttpReply n b) = True"
| "is_reply e = False"

fun is_sse_write :: "effect \<Rightarrow> bool" where
  "is_sse_write (SseWrite c m ok) = True"
| "is_sse_write e = False"

fun is_handler_call :: "effect \<Rightarrow> bool" where
  "is_handler_call (HandlerCall n p) = True"
| "is_handler_call e = False"

text \<open>What a handler has done by the time it sends the synchronous reply.\<close>

definition before_reply :: "effect list \<Rightarrow> effect list" where
  "before_reply tr = takeWhile (\<lambda>e. \<not> is_reply e) tr"

text \<open>
  The text of a frame on the channel, character by character: the identifier, the event
  category \<open>mcp\<close> and the serialised payload, each field followed by the two characters
  backslash and \<open>n\<close>, and these two characters once more at the end.
\<close>

definition wire_frame :: "jstring \<Rightarrow> jstring \<Rightarrow> jstring" where
  "wire_frame msgId dataText =
     str ''id: '' @ msgId @ str [CHR 0x5C, CHR ''n''] @ str ''event: mcp'' @ str [CHR 0x5C, CHR ''n'']
     @ str ''data: '' @ dataText @ str [CHR 0x5C, CHR ''n'', CHR 0x5C, CHR ''n'']"

text \<open>The frame of a payload pushed at time \<open>now\<close> under a message identifier prefix.\<close>

definition pushed_frame :: "js_runtime \<Rightarrow> nat \<Rightarrow> jstring \<Rightarrow> json \<Rightarrow> jstring" where
  "pushed_frame rt now messageIdPrefix payload =
     wire_frame (messageIdPrefix @ str ''-'' @ str (string_of_nat now)) (JSON_stringify rt payload)"

text \<open>
  A push on a session map: one write when the session is registered (it returns unless
  the channel throws), none otherwise.
\<close>

definition push_effects ::
  "js_runtime \<Rightarrow> nat \<Rightarrow> sessions \<Rightarrow> jstring \<Rightarrow> jstring \<Rightarrow> json \<Rightarrow> effect list" where
  "push_effects rt now st cid messageIdPrefix payload =
     (case st cid of
        Some ch \<Rightarrow> [SseWrite cid (pushed_frame rt now messageIdPrefix payload) (\<not> throws ch (writes ch))]
      | None \<Rightarrow> [])"

text \<open>The body of the 202 reply and the payload of a result Event.\<close>

definition accepted_reply :: "json \<Rightarrow> json" where
  "accepted_reply ident =
     JObj [(str ''id'', ident), (str ''status'', JStr (str ''processing'')),
           (str ''message'', JStr (str ''Tool call accepted, response will be sent via SSE.''))]"

definition tool_response_message :: "json \<Rightarrow> json \<Rightarrow> json \<Rightarrow> json" where
  "tool_response_message ident tool_name result =
     JObj [(str ''id'', ident), (str ''type'', JStr (str ''tool_response'')),
           (str ''tool_name'', tool_name), (str ''tool_response'', result)]"

text \<open>
  The constraints of a schema, as the interface states them: a field has its type, a
  string its exact length, a number its lower and upper bound; an optional field may be
  absent, a required one may not. \<open>violates t v m\<close> says that the value \<open>v\<close> of a field
  of type \<open>t\<close> violates a constraint whose message is \<open>m\<close>; \<open>violation\<close> says it of
  a parameter payload and a schema.
\<close>

fun json_kind :: "json \<Rightarrow> string" where
  "json_kind JUndefined = ''undefined''"
| "json_kind JNull = ''null''"
| "json_kind (JBool b) = ''boolean''"
| "json_kind (JNum n) = ''number''"
| "json_kind (JStr s) = ''string''"
| "json_kind (JArr xs) = ''array''"
| "json_kind (JObj fs) = ''object''"

fun violates :: "zodType \<Rightarrow> json \<Rightarrow> jstring \<Rightarrow> bool" where
  "violates (ZodString cs d) v m =
     (case v of
        JStr s \<Rightarrow>
          (\<exists>c\<in>set cs. case c of
             StrLength n \<Rightarrow>
               length s \<noteq> n
               \<and> m = str (''String must contain exactly '' @ string_of_nat n @ '' character(s)''))
      | JUndefined \<Rightarrow> m = str ''Required''
      | _ \<Rightarrow> m = str (''Expected string, received '' @ json_kind v))"
| "violates (ZodNumber cs d) v m =
     (case v of
        JNum x \<Rightarrow>
          (\<exists>c\<in>set cs. case c of
             NumMin a \<Rightarrow>
               x < of_int a \<and> m = str (''Number must be greater than or equal to '' @ string_of_int a)
           | NumMax b \<Rightarrow>
               of_int b < x \<and> m = str (''Number must be less than or equal to '' @ string_of_int b))
      | JUndefined \<Rightarrow> m = str ''Required''
      | _ \<Rightarrow> m = str (''Expected number, received '' @ json_kind v))"
| "violates (ZodBoolean d) v m =
     (case v of
        JBool b \<Rightarrow> False
      | JUndefined \<Rightarrow> m = str ''Required''
      | _ \<Rightarrow> m = str (''Expected boolean, received '' @ json_kind v))"
| "violates (ZodOptional t d) v m = (v \<noteq> JUndefined \<and> violates t v m)"
| "violates (ZodDefault t dflt d) v m = (if v = JUndefined then violates t dflt m else violates t v m)"
| "violates (ZodOther n f d) v m = (m \<in> set (f v))"

definition violation :: "zodObject \<Rightarrow> json \<Rightarrow> jstring \<Rightarrow> bool" where
  "violation shape params m =
     (case params of
        JObj fs \<Rightarrow> (\<exists>(k, t)\<in>set shape. violates t (get_prop params k) m)
      | JUndefined \<Rightarrow> m = str ''Required''
      | _ \<Rightarrow> m = str (''Expected object, received '' @ json_kind params))"

text \<open>
  The capital of a code unit of ASCII, and a runtime whose \<^verbatim>\<open>toUpperCase\<close> capitalises
  the strings of ASCII so (as JavaScript's does).
\<close>

definition ascii_upper :: "nat \<Rightarrow> nat" where
  "ascii_upper u = (if 97 \<le> u \<and> u \<le> 122 then u - 32 else u)"

definition upper_cases_ascii :: "js_runtime \<Rightarrow> bool" where
  "upper_cases_ascii rt =
     (\<forall>s. (\<forall>u\<in>set s. u < 128) \<longrightarrow> String_toUpperCase rt s = map ascii_upper s)"


text \<open>
  The events of an open channel for which \<^verbatim>\<open>/sse\<close> has registered a listener, and
  the listener that runs when the channel of a session emits one.
\<close>

datatype listener = ReqClose | ReqError | ResError

fun emit :: "jstring \<Rightarrow> listener \<Rightarrow> sessions \<Rightarrow> sessions" where
  "emit clientId ReqClose = req_on_close clientId"
| "emit clientId ReqError = req_on_error clientId"
| "emit clientId ResError = res_on_error clientId"


subsection \<open>A concrete server\<close>

text \<open>
  A runtime, collaborators and sessions to run the server on. The runtime prints JSON
  compactly (strings unescaped, numbers rounded down) and capitalises the letters of
  ASCII; the weather service answers every request with an empty list of alerts; the
  session \<open>client-1-abc\<close> is open.
\<close>

fun compact_text :: "json \<Rightarrow> jstring" where
  "compact_text JUndefined = str ''undefined''"
| "compact_text JNull = str ''null''"
| "compact_text (JBool b) = (if b then str ''true'' else str ''false'')"
| "compact_text (JNum x) = str (string_of_int \<lfloor>x\<rfloor>)"
| "compact_text (JStr s) = str [CHR 0x22] @ s @ str [CHR 0x22]"
| "compact_text (JArr xs) = str ''['' @ join (str '','') (map compact_text xs) @ str '']''"
| "compact_text (JObj fs) =
     str ''{'' @ join (str '','') (map (\<lambda>(k, v). str [CHR 0x22] @ k @ str [CHR 0x22] @ str '':'' @ compact_text v) fs)
     @ str ''}''"

definition example_runtime :: js_runtime where
  "example_runtime =
     \<lparr>JSON_stringify = compact_text,
      Number_toString = (\<lambda>x. str (string_of_int \<lfloor>x\<rfloor>)),
      String_toUpperCase = map ascii_upper\<rparr>"

definition example_collaborators :: collaborators where
  "example_collaborators =
     \<lparr>NWS_API_BASE = str ''https://api.weather.gov'',
      fetch_alerts = (\<lambda>url. FetchResponse True 200 (Some \<lparr>features = Some []\<rparr>)),
      get_forecast_handler = (\<lambda>p. Pending),
      brave_web_search_handler = (\<lambda>p. Resolved (text_result (str ''No search results found''))),
      google_search_handler = (\<lambda>p. Rejected OtherThrown)\<rparr>"

definition open_channel :: channel where
  "open_channel = \<lparr>frames = [], writes = 0, throws = (\<lambda>n. False)\<rparr>"

definition broken_channel :: channel where
  "broken_channel = \<lparr>frames = [], writes = 0, throws = (\<lambda>n. True)\<rparr>"

definition example_sessions :: sessions where
  "example_sessions = Map.empty(str ''client-1-abc'' \<mapsto> open_channel)"

definition request :: "json \<Rightarrow> json \<Rightarrow> json \<Rightarrow> json \<Rightarrow> json" where
  "request ident tool_name parameters client_id =
     JObj [(str ''id'', ident), (str ''tool_name'', tool_name), (str ''parameters'', parameters),
           (str ''client_id'', client_id)]"


section \<open>Auxiliary facts\<close>

subsection \<open>Strings\<close>

lemma str_eq_iff [simp]: "str a = str b \<longleftrightarrow> a = b"
  by (simp add: str_def inj_map_eq_map [OF inj_of_char])

lemma str_Nil [simp]: "str [] = []"
  by (simp add: str_def)

lemma str_eq_Nil [simp]: "str a = [] \<longleftrightarrow> a = []"
  by (simp add: str_def)

lemma Nil_eq_str [simp]: "[] = str a \<longleftrightarrow> a = []"
  by (simp add: str_def)

lemma length_str [simp]: "length (str a) = length a"
  by (simp add: str_def)

lemma str_append [simp]: "str a @ str b = str (a @ b)"
  by (simp add: str_def)

lemma str_append2 [simp]: "str a @ str b @ t = str (a @ b) @ t"
  by (simp add: str_def)

subsection \<open>The registry and the advertisement\<close>

lemma map_set_keys:
  "map fst (map_set k v xs) = (if k \<in> set (map fst xs) then map fst xs else map fst xs @ [k])"
  by (induction xs) force+

lemma remdups_drop_mid: "n \<in> set ys \<Longrightarrow> remdups (xs @ n # ys) = remdups (xs @ ys)"
  by (induction xs) auto

lemma register_all_keys:
  "map fst (register_all rs tls) = rev (remdups (rev (map fst tls @ map fst rs)))"
  if "distinct (map fst tls)"
  using that
proof (induction rs arbitrary: tls)
  case Nil
  then show ?case by (simp add: distinct_remdups_id)
next
  case (Cons r rs)
  obtain n d s h where r: "r = (n, d, s, h)" by (cases r) auto
  let ?t = "registerTool n d s h tls"
  have keys: "map fst ?t = (if n \<in> set (map fst tls) then map fst tls else map fst tls @ [n])"
    by (simp add: registerTool_def map_set_keys)
  have d: "distinct (map fst ?t)" using Cons.prems keys by auto
  have "map fst (register_all (r # rs) tls) = rev (remdups (rev (map fst ?t @ map fst rs)))"
    using Cons.IH [OF d] r by simp
  also have "\<dots> = rev (remdups (rev (map fst tls @ map fst (r # rs))))"
    using keys r by (auto simp: remdups_drop_mid)
  finally show ?case .
qed

lemma capability_list_handshake: "capability_list (mcpHandshakeResponse tls) = map tool_entry tls"
  by (simp add: capability_list_def mcpHandshakeResponse_def)

lemma entry_name_tool_entry: "entry_name (tool_entry (n, td)) = JStr n"
  by (simp add: entry_name_def tool_entry_def Let_def)

lemma entry_required_tool_entry:
  "entry_required (tool_entry (n, td)) =
     map JStr (map fst (filter (\<lambda>(k, t). \<not> is_optional_or_default t) (schema td)))"
  by (simp add: entry_required_def tool_entry_def Let_def)

lemma required_fields_eq:
  "map fst (filter (\<lambda>(k, t). \<not> is_optional_or_default t) shape) = required_fields shape"
proof -
  have "(\<lambda>(k, t). \<not> is_optional_or_default t)
        = (\<lambda>(k::jstring, t). typeName t \<noteq> str ''ZodOptional'' \<and> typeName t \<noteq> str ''ZodDefault'')"
    by (simp add: is_optional_or_default_def fun_eq_iff)
  then show ?thesis by (simp add: required_fields_def)
qed

lemma tools_eq:
  "tools rt c =
     [(str ''get-alerts'', \<lparr>description = str ''Get weather alerts for a state'',
          schema = get_alerts_schema,
          handler = get_alerts_handler rt (NWS_API_BASE c) (fetch_alerts c)\<rparr>),
      (str ''get-forecast'', \<lparr>description = str ''Get weather forecast for a location'',
          schema = get_forecast_schema, handler = get_forecast_handler c\<rparr>),
      (str ''brave-web-search'', \<lparr>description = str ''Search the web using Brave Search'',
          schema = brave_web_search_schema, handler = brave_web_search_handler c\<rparr>),
      (str ''google-search'', \<lparr>description = str ''Search the web using Google Custom Search'',
          schema = google_search_schema, handler = google_search_handler c\<rparr>)]"
  by (simp add: tools_def registerTool_def)

lemma tool_names: "map entry_name (map tool_entry ts) = map JStr (map fst ts)"
  by (induction ts) (auto simp: entry_name_tool_entry)

subsection \<open>Sessions, pushes and the registered tools\<close>

lemma sse_message_mcp: "sse_message msgId (str ''mcp'') dataText = wire_frame msgId dataText"
  by (simp add: sse_message_def wire_frame_def backslash_n_def str_def)

lemma sendSseMessage_live:
  "st cid = Some ch \<Longrightarrow>
   sendSseMessage rt now st cid (str ''mcp'') p pre =
     (st(cid \<mapsto> fst (res_write ch (pushed_frame rt now pre p))),
      [SseWrite cid (pushed_frame rt now pre p) (\<not> throws ch (writes ch))])"
  by (simp add: sendSseMessage_def pushed_frame_def sse_message_mcp Let_def res_write_def
      split: prod.splits)

lemma sendSseMessage_gone:
  "st cid = None \<Longrightarrow> sendSseMessage rt now st cid ev p pre = (st, [])"
  by (simp add: sendSseMessage_def)

lemma snd_sendSseMessage:
  "snd (sendSseMessage rt now st cid (str ''mcp'') p pre) = push_effects rt now st cid pre p"
  by (cases "st cid") (simp_all add: sendSseMessage_gone sendSseMessage_live push_effects_def)

lemma session_of_live: "st cid = Some ch \<Longrightarrow> session_of st (JStr cid) = Some cid"
  by (simp add: session_of_def)

lemma example_live: "example_sessions (str ''client-1-abc'') = Some open_channel"
  by (simp add: example_sessions_def)

lemma sse_failed_first:
  "throws res (writes res) \<Longrightarrow>
   fst (sse rt hs t0 rnd t1 t2 res st) = st(new_client_id t0 rnd := None)
   \<and> snd (snd (sse rt hs t0 rnd t1 t2 res st)) = False"
  by (simp add: sse_def Let_def res_write_def)

lemma sse_failed_second:
  "\<not> throws res (writes res) \<Longrightarrow> throws res (Suc (writes res)) \<Longrightarrow>
   fst (sse rt hs t0 rnd t1 t2 res st) = st(new_client_id t0 rnd := None)
   \<and> snd (snd (sse rt hs t0 rnd t1 t2 res st)) = False"
  by (simp add: sse_def Let_def res_write_def)

subsection \<open>Schema issues and violated constraints\<close>

lemma json_kind_parsedType: "json_kind v = parsedType v"
  by (cases v) simp_all

lemma str_check_issues_iff:
  "m \<in> set (str_check_issues s c) \<longleftrightarrow>
     (case c of StrLength n \<Rightarrow>
        length s \<noteq> n \<and> m = str (''String must contain exactly '' @ string_of_nat n @ '' character(s)''))"
  by (cases c) auto

lemma num_check_issues_iff:
  "m \<in> set (num_check_issues x c) \<longleftrightarrow>
     (case c of
        NumMin a \<Rightarrow> x < of_int a \<and> m = str (''Number must be greater than or equal to '' @ string_of_int a)
      | NumMax b \<Rightarrow> of_int b < x \<and> m = str (''Number must be less than or equal to '' @ string_of_int b))"
  by (cases c) auto

lemma zod_issues_violates: "m \<in> set (zod_issues t v) \<longleftrightarrow> violates t v m"
proof (induction t arbitrary: v)
  case (ZodString cs d)
  show ?case
    by (cases v) (auto simp: invalid_type_def str_check_issues_iff json_kind_parsedType)
next
  case (ZodNumber cs d)
  show ?case
    by (cases v) (auto simp: invalid_type_def num_check_issues_iff json_kind_parsedType)
next
  case (ZodBoolean d)
  show ?case
    by (cases v) (auto simp: invalid_type_def json_kind_parsedType)
next
  case (ZodOptional t d)
  then show ?case by simp
next
  case (ZodDefault t dflt d)
  then show ?case by simp
next
  case (ZodOther n f d)
  show ?case by simp
qed

lemma object_issues_violation: "m \<in> set (object_issues shape params) \<longleftrightarrow> violation shape params m"
  by (cases params)
     (auto simp: object_issues_def violation_def invalid_type_def zod_issues_violates
        json_kind_parsedType)

lemma catch_block_live:
  "st cid = Some ch \<Longrightarrow>
   catch_block rt now st cid messageId err =
     (let (errorType, errorMessage, httpStatus) =
            (case err of
               ZodError issues \<Rightarrow>
                 (str ''invalid_parameters'',
                  str ''Parameter validation failed: '' @ join (str '', '') issues, 400 :: nat)
             | ErrorObj m \<Rightarrow> (str ''tool_error'', m, 500)
             | OtherThrown \<Rightarrow> (str ''tool_error'', str ''Tool execution failed.'', 500));
          errorPayload =
            JObj [(str ''id'', messageId), (str ''type'', JStr (str ''error'')),
                  (str ''error_type'', JStr errorType), (str ''message'', JStr errorMessage)]
      in (st(cid \<mapsto> fst (res_write ch (pushed_frame rt now (str ''err'') errorPayload))),
          [SseWrite cid (pushed_frame rt now (str ''err'') errorPayload) (\<not> throws ch (writes ch)),
           HttpReply httpStatus errorPayload]))"
  by (cases err) (simp_all add: catch_block_def Let_def sendSseMessage_live)

lemma snd_catch_block:
  "snd (catch_block rt now st cid messageId err) =
     (let (errorType, errorMessage, httpStatus) =
            (case err of
               ZodError issues \<Rightarrow>
                 (str ''invalid_parameters'',
                  str ''Parameter validation failed: '' @ join (str '', '') issues, 400 :: nat)
             | ErrorObj m \<Rightarrow> (str ''tool_error'', m, 500)
             | OtherThrown \<Rightarrow> (str ''tool_error'', str ''Tool execution failed.'', 500));
          errorPayload =
            JObj [(str ''id'', messageId), (str ''type'', JStr (str ''error'')),
                  (str ''error_type'', JStr errorType), (str ''message'', JStr errorMessage)]
      in push_effects rt now st cid (str ''err'') errorPayload @ [HttpReply httpStatus errorPayload])"
  by (cases err)
     (simp_all add: catch_block_def Let_def snd_sendSseMessage [symmetric] split: prod.splits)

lemma res_write_explicit:
  "fst (res_write ch m) =
     (if throws ch (writes ch) then ch\<lparr>writes := Suc (writes ch)\<rparr>
      else ch\<lparr>frames := frames ch @ [m], writes := Suc (writes ch)\<rparr>)"
  by (simp add: res_write_def)

lemma brave_tool:
  "tools_get (tools rt c) (JStr (str ''brave-web-search'')) =
     Some \<lparr>description = str ''Search the web using Brave Search'',
           schema = brave_web_search_schema, handler = brave_web_search_handler c\<rparr>"
  by (simp add: tools_get_def tools_eq)

lemma get_alerts_tool:
  "tools_get (tools rt c) (JStr (str ''get-alerts'')) =
     Some \<lparr>description = str ''Get weather alerts for a state'', schema = get_alerts_schema,
           handler = get_alerts_handler rt (NWS_API_BASE c) (fetch_alerts c)\<rparr>"
  by (simp add: tools_get_def tools_eq)

lemma get_alerts_parse:
  "map_of ps (str ''state'') = Some (JStr s) \<Longrightarrow> length s = 2 \<Longrightarrow>
   parse get_alerts_schema (JObj ps) = Inr (JObj [(str ''state'', JStr s)])"
  by (simp add: parse_def object_issues_def object_value_def get_alerts_schema_def)

lemma brave_count_25_issues:
  "map_of ps (str ''count'') = Some (JNum 25) \<Longrightarrow>
   object_issues brave_web_search_schema (JObj ps) =
     (case get_prop (JObj ps) (str ''query'') of
        JStr q \<Rightarrow> []
      | JUndefined \<Rightarrow> [str ''Required'']
      | v \<Rightarrow> [str (''Expected string, received '' @ json_kind v)])
     @ [str ''Number must be less than or equal to 20'']"
  by (simp add: object_issues_def brave_web_search_schema_def optional_def string_of_int_def
        string_of_nat.simps digit_char_def invalid_type_def json_kind_parsedType
      split: json.splits option.splits)

lemma example_upper: "String_toUpperCase example_runtime = map ascii_upper"
  by (simp add: example_runtime_def)

lemma example_upper_cases_ascii: "upper_cases_ascii example_runtime"
  by (simp add: upper_cases_ascii_def example_runtime_def)

lemma str_numeral_7: "str (string_of_nat 7) = str ''7''"
  by (simp add: string_of_nat.simps digit_char_def)

lemma upper_ZZ: "map ascii_upper (str ''ZZ'') = str ''ZZ''"
  by (simp add: str_def ascii_upper_def)

lemma upper_zz: "map ascii_upper (str ''zz'') = str ''ZZ''"
  by (simp add: str_def ascii_upper_def)

lemma emit_eq: "emit cid e st = st(cid := None)"
  by (cases e) (simp_all add: req_on_close_def req_on_error_def res_on_error_def)

lemma fold_emit: "fold (emit cid) evs st = (if evs = [] then st else st(cid := None))"
  by (induction evs arbitrary: st) (simp_all add: emit_eq)


section \<open>Properties of the gateway\<close>


subsection \<open>Accepted invocations\<close>

text \<open>
  C1 as stated does not hold. On an accepted \<open>get-alerts\<close> request, by the time the
  synchronous reply is sent the handler has already been called and the result Event has
  already been written on the session's channel: \<^verbatim>\<open>toolCallHandler\<close> awaits
  \<^verbatim>\<open>tool.handler(validatedParams)\<close>, then calls \<^verbatim>\<open>sendSseMessage\<close>, and
  replies last.
\<close>

theorem handler_runs_before_reply_counterexample:
  "before_reply
     (snd (toolCallHandler example_runtime (tools example_runtime example_collaborators) 7 id
             example_sessions
             (request (JStr (str ''r1'')) (JStr (str ''get-alerts''))
                (JObj [(str ''state'', JStr (str ''ZZ''))]) (JStr (str ''client-1-abc'')))))
   = [HandlerCall (JStr (str ''get-alerts'')) (JObj [(str ''state'', JStr (str ''ZZ''))]),
      SseWrite (str ''client-1-abc'')
        (pushed_frame example_runtime 7 (str ''toolrsp'')
           (tool_response_message (JStr (str ''r1'')) (JStr (str ''get-alerts''))
              (text_result (str ''No active alerts for ZZ''))))
        True]"
  by (simp add: request_def toolCallHandler_def Let_def session_of_def example_sessions_def
        get_alerts_tool get_alerts_parse get_alerts_handler_def example_upper upper_ZZ
        makeNWSRequest_def example_collaborators_def sendSseMessage_live open_channel_def
        before_reply_def tool_response_message_def)

text \<open>
  C1, amended. For every invocation request that passes all four checks (a truthy
  \<open>client_id\<close> that is the token of a live session, a registered tool, parameters
  with no schema issue), the gateway first calls the tool handler with the validated
  parameters and awaits it. When the handler resolves, the gateway writes the
  \<open>tool_response\<close> Event on the session's channel (if the session is still
  registered) and only then sends the 202 reply with \<open>id\<close>, \<open>status: processing\<close>
  and a message. When the handler rejects, it writes an \<open>error\<close> Event and then
  replies with the same payload: \<open>error_type\<close> \<open>tool_error\<close> and status 500, with
  the message of the error (or \<open>Tool execution failed.\<close> when what is thrown is not an
  error object); \<open>error_type\<close> \<open>invalid_parameters\<close> and status 400 when the handler
  rejects with a \<^verbatim>\<open>ZodError\<close>. While the handler has not settled, nothing is written
  and nothing is replied.
\<close>

theorem accepted_invocation_order:
  assumes "get_prop body (str ''client_id'') = JStr cid" and "cid \<noteq> []" and "st cid = Some ch"
    and "truthy (get_prop body (str ''tool_name''))"
    and "tools_get tls (get_prop body (str ''tool_name'')) = Some tool"
    and "object_issues (schema tool) (get_prop body (str ''parameters'')) = []"
  shows "(let messageId = get_prop body (str ''id'');
              tool_name = get_prop body (str ''tool_name'');
              validatedParams = object_value (schema tool) (get_prop body (str ''parameters''))
          in snd (toolCallHandler rt tls now during_await st body) =
               (case handler tool validatedParams of
                  Pending \<Rightarrow> [HandlerCall tool_name validatedParams]
                | Resolved result \<Rightarrow>
                    [HandlerCall tool_name validatedParams]
                    @ push_effects rt now (during_await st) cid (str ''toolrsp'')
                        (tool_response_message messageId tool_name result)
                    @ [HttpReply 202 (accepted_reply messageId)]
                | Rejected err \<Rightarrow>
                    (let (errorType, errorMessage, httpStatus) =
                           (case err of
                              ZodError issues \<Rightarrow>
                                (str ''invalid_parameters'',
                                 str ''Parameter validation failed: '' @ join (str '', '') issues,
                                 400 :: nat)
                            | ErrorObj m \<Rightarrow> (str ''tool_error'', m, 500)
                            | OtherThrown \<Rightarrow> (str ''tool_error'', str ''Tool execution failed.'', 500));
                         errorPayload =
                           JObj [(str ''id'', messageId), (str ''type'', JStr (str ''error'')),
                                 (str ''error_type'', JStr errorType),
                                 (str ''message'', JStr errorMessage)]
                     in [HandlerCall tool_name validatedParams]
                        @ push_effects rt now (during_await st) cid (str ''err'') errorPayload
                        @ [HttpReply httpStatus errorPayload])))"
proof -
  let ?vp = "object_value (schema tool) (get_prop body (str ''parameters''))"
  have run: "snd (toolCallHandler rt tls now during_await st body) =
      (case handler tool ?vp of
         Pending \<Rightarrow> [HandlerCall (get_prop body (str ''tool_name'')) ?vp]
       | Resolved result \<Rightarrow>
           [HandlerCall (get_prop body (str ''tool_name'')) ?vp]
           @ push_effects rt now (during_await st) cid (str ''toolrsp'')
               (tool_response_message (get_prop body (str ''id'')) (get_prop body (str ''tool_name'')) result)
           @ [HttpReply 202 (accepted_reply (get_prop body (str ''id'')))]
       | Rejected err \<Rightarrow>
           [HandlerCall (get_prop body (str ''tool_name'')) ?vp]
           @ snd (catch_block rt now (during_await st) cid (get_prop body (str ''id'')) err))"
    using assms
    by (simp add: toolCallHandler_def Let_def session_of_live parse_def snd_sendSseMessage [symmetric]
          tool_response_message_def accepted_reply_def case_prod_beta
        split: outcome.splits)
  show ?thesis
    unfolding Let_def run
    by (simp add: snd_catch_block Let_def split: outcome.splits thrown.splits)
qed

theorem accepted_invocation_order_witness:
  "snd (toolCallHandler example_runtime (tools example_runtime example_collaborators) 7 id
          example_sessions
          (request (JStr (str ''r1'')) (JStr (str ''brave-web-search''))
             (JObj [(str ''query'', JStr (str ''isabelle''))]) (JStr (str ''client-1-abc''))))
   = [HandlerCall (JStr (str ''brave-web-search'')) (JObj [(str ''query'', JStr (str ''isabelle''))]),
      SseWrite (str ''client-1-abc'')
        (wire_frame (str ''toolrsp-7'')
           (JSON_stringify example_runtime
              (JObj [(str ''id'', JStr (str ''r1'')), (str ''type'', JStr (str ''tool_response'')),
                     (str ''tool_name'', JStr (str ''brave-web-search'')),
                     (str ''tool_response'', text_result (str ''No search results found''))])))
        True,
      HttpReply 202
        (JObj [(str ''id'', JStr (str ''r1'')), (str ''status'', JStr (str ''processing'')),
               (str ''message'', JStr (str ''Tool call accepted, response will be sent via SSE.''))])]
   \<and> snd (toolCallHandler example_runtime (tools example_runtime example_collaborators) 7 id
          example_sessions
          (request (JStr (str ''r2'')) (JStr (str ''google-search''))
             (JObj [(str ''query'', JStr (str ''isabelle''))]) (JStr (str ''client-1-abc''))))
   = [HandlerCall (JStr (str ''google-search'')) (JObj [(str ''query'', JStr (str ''isabelle''))]),
      SseWrite (str ''client-1-abc'')
        (wire_frame (str ''err-7'')
           (JSON_stringify example_runtime
              (JObj [(str ''id'', JStr (str ''r2'')), (str ''type'', JStr (str ''error'')),
                     (str ''error_type'', JStr (str ''tool_error'')),
                     (str ''message'', JStr (str ''Tool execution failed.''))])))
        True,
      HttpReply 500
        (JObj [(str ''id'', JStr (str ''r2'')), (str ''type'', JStr (str ''error'')),
               (str ''error_type'', JStr (str ''tool_error'')),
               (str ''message'', JStr (str ''Tool execution failed.''))])]
   \<and> snd (toolCallHandler example_runtime (tools example_runtime example_collaborators) 7 id
          example_sessions
          (request (JStr (str ''r3'')) (JStr (str ''get-forecast''))
             (JObj [(str ''latitude'', JNum 40), (str ''longitude'', JNum (- 74))])
             (JStr (str ''client-1-abc''))))
   = [HandlerCall (JStr (str ''get-forecast''))
        (JObj [(str ''latitude'', JNum 40), (str ''longitude'', JNum (- 74))])]"
proof -
  let ?b1 = "request (JStr (str ''r1'')) (JStr (str ''brave-web-search''))
             (JObj [(str ''query'', JStr (str ''isabelle''))]) (JStr (str ''client-1-abc''))"
  let ?t1 = "\<lparr>description = str ''Search the web using Brave Search'',
          schema = brave_web_search_schema, handler = brave_web_search_handler example_collaborators\<rparr>"
  let ?b2 = "request (JStr (str ''r2'')) (JStr (str ''google-search''))
             (JObj [(str ''query'', JStr (str ''isabelle''))]) (JStr (str ''client-1-abc''))"
  let ?t2 = "\<lparr>description = str ''Search the web using Google Custom Search'',
          schema = google_search_schema, handler = google_search_handler example_collaborators\<rparr>"
  let ?b3 = "request (JStr (str ''r3'')) (JStr (str ''get-forecast''))
             (JObj [(str ''latitude'', JNum 40), (str ''longitude'', JNum (- 74))])
             (JStr (str ''client-1-abc''))"
  let ?t3 = "\<lparr>description = str ''Get weather forecast for a location'',
          schema = get_forecast_schema, handler = get_forecast_handler example_collaborators\<rparr>"
  have nonempty: "str ''client-1-abc'' \<noteq> []" by simp
  have a1: "get_prop ?b1 (str ''client_id'') = JStr (str ''client-1-abc'')" by (simp add: request_def)
  have a4: "truthy (get_prop ?b1 (str ''tool_name''))" by (simp add: request_def)
  have a5: "tools_get (tools example_runtime example_collaborators) (get_prop ?b1 (str ''tool_name''))
              = Some ?t1"
    by (simp add: request_def tools_get_def tools_eq)
  have a6: "object_issues (schema ?t1) (get_prop ?b1 (str ''parameters'')) = []"
    by (simp add: request_def object_issues_def brave_web_search_schema_def optional_def)
  have b1: "get_prop ?b2 (str ''client_id'') = JStr (str ''client-1-abc'')" by (simp add: request_def)
  have b4: "truthy (get_prop ?b2 (str ''tool_name''))" by (simp add: request_def)
  have b5: "tools_get (tools example_runtime example_collaborators) (get_prop ?b2 (str ''tool_name''))
              = Some ?t2"
    by (simp add: request_def tools_get_def tools_eq)
  have b6: "object_issues (schema ?t2) (get_prop ?b2 (str ''parameters'')) = []"
    by (simp add: request_def object_issues_def google_search_schema_def optional_def)
  have c1: "get_prop ?b3 (str ''client_id'') = JStr (str ''client-1-abc'')" by (simp add: request_def)
  have c4: "truthy (get_prop ?b3 (str ''tool_name''))" by (simp add: request_def)
  have c5: "tools_get (tools example_runtime example_collaborators) (get_prop ?b3 (str ''tool_name''))
              = Some ?t3"
    by (simp add: request_def tools_get_def tools_eq)
  have c6: "object_issues (schema ?t3) (get_prop ?b3 (str ''parameters'')) = []"
    by (simp add: request_def object_issues_def get_forecast_schema_def)
  have frames: "pushed_frame example_runtime 7 (str pre) p
                  = wire_frame (str (pre @ ''-7'')) (JSON_stringify example_runtime p)" for pre p
    by (simp add: pushed_frame_def str_numeral_7)
  have r1: "snd (toolCallHandler example_runtime (tools example_runtime example_collaborators) 7 id
                  example_sessions ?b1)
      = [HandlerCall (JStr (str ''brave-web-search'')) (JObj [(str ''query'', JStr (str ''isabelle''))]),
         SseWrite (str ''client-1-abc'')
           (wire_frame (str ''toolrsp-7'')
              (JSON_stringify example_runtime
                 (JObj [(str ''id'', JStr (str ''r1'')), (str ''type'', JStr (str ''tool_response'')),
                        (str ''tool_name'', JStr (str ''brave-web-search'')),
                        (str ''tool_response'', text_result (str ''No search results found''))])))
           True,
         HttpReply 202
           (JObj [(str ''id'', JStr (str ''r1'')), (str ''status'', JStr (str ''processing'')),
                  (str ''message'', JStr (str ''Tool call accepted, response will be sent via SSE.''))])]"
    using accepted_invocation_order
            [where body = "?b1" and cid = "str ''client-1-abc''" and st = example_sessions
               and ch = open_channel and tls = "tools example_runtime example_collaborators"
               and tool = "?t1" and rt = example_runtime and now = 7 and during_await = id,
             OF a1 nonempty example_live a4 a5 a6]
    by (simp add: Let_def request_def object_value_def brave_web_search_schema_def optional_def
          has_key_def example_collaborators_def push_effects_def example_live frames open_channel_def
          tool_response_message_def accepted_reply_def)
  have r2: "snd (toolCallHandler example_runtime (tools example_runtime example_collaborators) 7 id
                  example_sessions ?b2)
      = [HandlerCall (JStr (str ''google-search'')) (JObj [(str ''query'', JStr (str ''isabelle''))]),
         SseWrite (str ''client-1-abc'')
           (wire_frame (str ''err-7'')
              (JSON_stringify example_runtime
                 (JObj [(str ''id'', JStr (str ''r2'')), (str ''type'', JStr (str ''error'')),
                        (str ''error_type'', JStr (str ''tool_error'')),
                        (str ''message'', JStr (str ''Tool execution failed.''))])))
           True,
         HttpReply 500
           (JObj [(str ''id'', JStr (str ''r2'')), (str ''type'', JStr (str ''error'')),
                  (str ''error_type'', JStr (str ''tool_error'')),
                  (str ''message'', JStr (str ''Tool execution failed.''))])]"
    using accepted_invocation_order
            [where body = "?b2" and cid = "str ''client-1-abc''" and st = example_sessions
               and ch = open_channel and tls = "tools example_runtime example_collaborators"
               and tool = "?t2" and rt = example_runtime and now = 7 and during_await = id,
             OF b1 nonempty example_live b4 b5 b6]
    by (simp add: Let_def request_def object_value_def google_search_schema_def optional_def
          has_key_def example_collaborators_def push_effects_def example_live frames open_channel_def)
  have r3: "snd (toolCallHandler example_runtime (tools example_runtime example_collaborators) 7 id
                  example_sessions ?b3)
      = [HandlerCall (JStr (str ''get-forecast''))
           (JObj [(str ''latitude'', JNum 40), (str ''longitude'', JNum (- 74))])]"
    using accepted_invocation_order
            [where body = "?b3" and cid = "str ''client-1-abc''" and st = example_sessions
               and ch = open_channel and tls = "tools example_runtime example_collaborators"
               and tool = "?t3" and rt = example_runtime and now = 7 and during_await = id,
             OF c1 nonempty example_live c4 c5 c6]
    by (simp add: Let_def request_def object_value_def get_forecast_schema_def
          has_key_def example_collaborators_def)
  show ?thesis using r1 r2 r3 by simp
qed


subsection \<open>The capability list\<close>

text \<open>
  C2. Whatever sequence of registrations the start-up makes, the capability list of the
  handshake payload has the registered names, each once, in the order of their first
  registration. The \<open>required\<close> list of each entry is the list of the fields of the
  tool's schema that are neither optional nor default. For the four tools the server
  registers, the names and required parameters are: \<open>get-alerts\<close> with \<open>state\<close>;
  \<open>get-forecast\<close> with \<open>latitude\<close> and \<open>longitude\<close>; \<open>brave-web-search\<close> and
  \<open>google-search\<close> with \<open>query\<close> and without \<open>count\<close>.
\<close>

theorem handshake_capabilities:
  "map entry_name (capability_list (mcpHandshakeResponse (register_all rs [])))
     = map JStr (first_occurrences (map fst rs))
   \<and> distinct (map entry_name (capability_list (mcpHandshakeResponse (register_all rs []))))
   \<and> map entry_required (capability_list (mcpHandshakeResponse tls))
     = map (\<lambda>(n, td). map JStr (required_fields (schema td))) tls
   \<and> map (\<lambda>e. (entry_name e, entry_required e)) (capability_list (mcpHandshakeResponse (tools rt c)))
     = [(JStr (str ''get-alerts''), [JStr (str ''state'')]),
        (JStr (str ''get-forecast''), [JStr (str ''latitude''), JStr (str ''longitude'')]),
        (JStr (str ''brave-web-search''), [JStr (str ''query'')]),
        (JStr (str ''google-search''), [JStr (str ''query'')])]"
proof (intro conjI)
  have keys: "map fst (register_all rs []) = first_occurrences (map fst rs)"
    using register_all_keys [of "[]" rs] by (simp add: first_occurrences_def)
  show "map entry_name (capability_list (mcpHandshakeResponse (register_all rs [])))
          = map JStr (first_occurrences (map fst rs))"
    by (simp only: capability_list_handshake tool_names keys)
  have "distinct (first_occurrences (map fst rs))"
    by (simp add: first_occurrences_def)
  then have "distinct (map JStr (first_occurrences (map fst rs)))"
    by (simp add: distinct_map inj_on_def)
  then show "distinct (map entry_name (capability_list (mcpHandshakeResponse (register_all rs []))))"
    by (simp only: capability_list_handshake tool_names keys)
  show "map entry_required (capability_list (mcpHandshakeResponse tls))
          = map (\<lambda>(n, td). map JStr (required_fields (schema td))) tls"
    by (induction tls)
       (auto simp: capability_list_handshake entry_required_tool_entry required_fields_eq)
  show "map (\<lambda>e. (entry_name e, entry_required e)) (capability_list (mcpHandshakeResponse (tools rt c)))
     = [(JStr (str ''get-alerts''), [JStr (str ''state'')]),
        (JStr (str ''get-forecast''), [JStr (str ''latitude''), JStr (str ''longitude'')]),
        (JStr (str ''brave-web-search''), [JStr (str ''query'')]),
        (JStr (str ''google-search''), [JStr (str ''query'')])]"
    by (simp add: capability_list_handshake tools_eq entry_name_tool_entry entry_required_tool_entry
          is_optional_or_default_def get_alerts_schema_def get_forecast_schema_def
          brave_web_search_schema_def google_search_schema_def optional_def)
qed

theorem handshake_capabilities_witness:
  "map entry_name (capability_list (mcpHandshakeResponse
      (register_all [(str ''a'', str ''first'', [], (\<lambda>p. Pending)),
                     (str ''b'', str ''second'', [], (\<lambda>p. Pending)),
                     (str ''a'', str ''again'', [], (\<lambda>p. Pending))] [])))
     = [JStr (str ''a''), JStr (str ''b'')]
   \<and> map entry_required (capability_list (mcpHandshakeResponse
        [(str ''t'', \<lparr>description = str ''d'',
                  schema = [(str ''x'', ZodBoolean None),
                            (str ''y'', ZodDefault (ZodBoolean None) (JBool True) None),
                            (str ''z'', optional (ZodString [] None))],
                  handler = (\<lambda>p. Pending)\<rparr>)]))
     = [[JStr (str ''x'')]]
   \<and> map (\<lambda>e. (entry_name e, entry_required e))
        (capability_list (mcpHandshakeResponse (tools example_runtime example_collaborators)))
     = [(JStr (str ''get-alerts''), [JStr (str ''state'')]),
        (JStr (str ''get-forecast''), [JStr (str ''latitude''), JStr (str ''longitude'')]),
        (JStr (str ''brave-web-search''), [JStr (str ''query'')]),
        (JStr (str ''google-search''), [JStr (str ''query'')])]"
  using handshake_capabilities
    [of "[(str ''a'', str ''first'', [], (\<lambda>p. Pending)), (str ''b'', str ''second'', [], (\<lambda>p. Pending)),
          (str ''a'', str ''again'', [], (\<lambda>p. Pending))]"
        "[(str ''t'', \<lparr>description = str ''d'',
                  schema = [(str ''x'', ZodBoolean None),
                            (str ''y'', ZodDefault (ZodBoolean None) (JBool True) None),
                            (str ''z'', optional (ZodString [] None))],
                  handler = (\<lambda>p. Pending)\<rparr>)]"
        example_runtime example_collaborators]
  by (simp add: first_occurrences_def required_fields_def optional_def)


subsection \<open>Invalid parameters\<close>

text \<open>
  C3. For every invocation request with a live session and a registered tool whose
  parameter payload violates a constraint of the tool's schema: the gateway writes one
  Event on the session's channel and then replies 400, both with the same payload, of
  \<open>type\<close> \<open>error\<close> and \<open>error_type\<close> \<open>invalid_parameters\<close>; the message of
  that payload is \<open>Parameter validation failed: \<close> followed by the messages of the
  reported issues, separated by a comma and a space; a message is among the reported
  issues exactly when it is the message of a violated constraint of the schema, so every
  violated constraint is listed, not only the first; the tool handler is not called; and
  the registry changes only in the channel of the session, which has the frame of the
  Event when the write returns.
\<close>

theorem invalid_parameters_rejected:
  assumes "get_prop body (str ''client_id'') = JStr cid" and "cid \<noteq> []" and "st cid = Some ch"
    and "truthy (get_prop body (str ''tool_name''))"
    and "tools_get tls (get_prop body (str ''tool_name'')) = Some tool"
    and "violation (schema tool) (get_prop body (str ''parameters'')) violated"
  shows "(let issues = object_issues (schema tool) (get_prop body (str ''parameters''));
              errorPayload =
                JObj [(str ''id'', get_prop body (str ''id'')), (str ''type'', JStr (str ''error'')),
                      (str ''error_type'', JStr (str ''invalid_parameters'')),
                      (str ''message'',
                         JStr (str ''Parameter validation failed: '' @ join (str '', '') issues))];
              frame = wire_frame (str ''err-'' @ str (string_of_nat now)) (JSON_stringify rt errorPayload)
          in toolCallHandler rt tls now during_await st body =
               (st(cid \<mapsto>
                     (if throws ch (writes ch) then ch\<lparr>writes := Suc (writes ch)\<rparr>
                      else ch\<lparr>frames := frames ch @ [frame], writes := Suc (writes ch)\<rparr>)),
                [SseWrite cid frame (\<not> throws ch (writes ch)), HttpReply 400 errorPayload])
             \<and> filter is_handler_call (snd (toolCallHandler rt tls now during_await st body)) = []
             \<and> (\<forall>m. (m \<in> set issues) = violation (schema tool) (get_prop body (str ''parameters'')) m))"
proof -
  let ?issues = "object_issues (schema tool) (get_prop body (str ''parameters''))"
  have "violated \<in> set ?issues"
    using assms(6) by (simp add: object_issues_violation)
  then have ne: "?issues \<noteq> []" by auto
  have run: "toolCallHandler rt tls now during_await st body =
      catch_block rt now st cid (get_prop body (str ''id'')) (ZodError ?issues)"
    using assms(1-5) ne by (simp add: toolCallHandler_def Let_def session_of_live parse_def)
  show ?thesis
    unfolding Let_def run
    using assms(3)
    by (simp add: catch_block_live Let_def pushed_frame_def res_write_explicit object_issues_violation)
qed

theorem invalid_parameters_rejected_witness:
  "toolCallHandler example_runtime (tools example_runtime example_collaborators) 7 id example_sessions
     (request (JStr (str ''r1'')) (JStr (str ''get-forecast''))
        (JObj [(str ''latitude'', JNum 999), (str ''longitude'', JNum (- 500))])
        (JStr (str ''client-1-abc'')))
   = (example_sessions(str ''client-1-abc'' \<mapsto>
        \<lparr>frames =
           [wire_frame (str ''err-7'')
              (JSON_stringify example_runtime
                 (JObj [(str ''id'', JStr (str ''r1'')), (str ''type'', JStr (str ''error'')),
                        (str ''error_type'', JStr (str ''invalid_parameters'')),
                        (str ''message'',
                           JStr (str ''Parameter validation failed: Number must be less than or equal to 90, Number must be greater than or equal to -180''))]))],
         writes = 1, throws = (\<lambda>n. False)\<rparr>),
      [SseWrite (str ''client-1-abc'')
         (wire_frame (str ''err-7'')
            (JSON_stringify example_runtime
               (JObj [(str ''id'', JStr (str ''r1'')), (str ''type'', JStr (str ''error'')),
                      (str ''error_type'', JStr (str ''invalid_parameters'')),
                      (str ''message'',
                         JStr (str ''Parameter validation failed: Number must be less than or equal to 90, Number must be greater than or equal to -180''))])))
         True,
       HttpReply 400
         (JObj [(str ''id'', JStr (str ''r1'')), (str ''type'', JStr (str ''error'')),
                (str ''error_type'', JStr (str ''invalid_parameters'')),
                (str ''message'',
                   JStr (str ''Parameter validation failed: Number must be less than or equal to 90, Number must be greater than or equal to -180''))])])
   \<and> snd (toolCallHandler example_runtime (tools example_runtime example_collaborators) 7 id
            example_sessions
            (request (JStr (str ''r2'')) (JStr (str ''get-alerts''))
               (JObj [(str ''state'', JStr (str ''California''))]) (JStr (str ''client-1-abc''))))
     = [SseWrite (str ''client-1-abc'')
          (wire_frame (str ''err-7'')
             (JSON_stringify example_runtime
                (JObj [(str ''id'', JStr (str ''r2'')), (str ''type'', JStr (str ''error'')),
                       (str ''error_type'', JStr (str ''invalid_parameters'')),
                       (str ''message'',
                          JStr (str ''Parameter validation failed: String must contain exactly 2 character(s)''))])))
          True,
        HttpReply 400
          (JObj [(str ''id'', JStr (str ''r2'')), (str ''type'', JStr (str ''error'')),
                 (str ''error_type'', JStr (str ''invalid_parameters'')),
                 (str ''message'',
                    JStr (str ''Parameter validation failed: String must contain exactly 2 character(s)''))])]"
proof -
  let ?p1 = "JObj [(str ''latitude'', JNum 999), (str ''longitude'', JNum (- 500))]"
  let ?b1 = "request (JStr (str ''r1'')) (JStr (str ''get-forecast'')) ?p1 (JStr (str ''client-1-abc''))"
  let ?t1 = "\<lparr>description = str ''Get weather forecast for a location'',
          schema = get_forecast_schema, handler = get_forecast_handler example_collaborators\<rparr>"
  let ?p2 = "JObj [(str ''state'', JStr (str ''California''))]"
  let ?b2 = "request (JStr (str ''r2'')) (JStr (str ''get-alerts'')) ?p2 (JStr (str ''client-1-abc''))"
  let ?t2 = "\<lparr>description = str ''Get weather alerts for a state'', schema = get_alerts_schema,
           handler = get_alerts_handler example_runtime (NWS_API_BASE example_collaborators)
                       (fetch_alerts example_collaborators)\<rparr>"
  have nonempty: "str ''client-1-abc'' \<noteq> []" by simp
  have issues1: "object_issues get_forecast_schema ?p1
      = [str ''Number must be less than or equal to 90'',
         str ''Number must be greater than or equal to -180'']"
    by (simp add: object_issues_def get_forecast_schema_def string_of_int_def string_of_nat.simps
          digit_char_def)
  have issues2: "object_issues get_alerts_schema ?p2 = [str ''String must contain exactly 2 character(s)'']"
    by (simp add: object_issues_def get_alerts_schema_def string_of_nat.simps digit_char_def)
  have a1: "get_prop ?b1 (str ''client_id'') = JStr (str ''client-1-abc'')" by (simp add: request_def)
  have a4: "truthy (get_prop ?b1 (str ''tool_name''))" by (simp add: request_def)
  have a5: "tools_get (tools example_runtime example_collaborators) (get_prop ?b1 (str ''tool_name''))
              = Some ?t1"
    by (simp add: request_def tools_get_def tools_eq)
  have a6: "violation (schema ?t1) (get_prop ?b1 (str ''parameters''))
              (str ''Number must be less than or equal to 90'')"
    by (simp add: request_def object_issues_violation [symmetric] issues1)
  have b1: "get_prop ?b2 (str ''client_id'') = JStr (str ''client-1-abc'')" by (simp add: request_def)
  have b4: "truthy (get_prop ?b2 (str ''tool_name''))" by (simp add: request_def)
  have b5: "tools_get (tools example_runtime example_collaborators) (get_prop ?b2 (str ''tool_name''))
              = Some ?t2"
    by (simp add: request_def tools_get_def tools_eq)
  have b6: "violation (schema ?t2) (get_prop ?b2 (str ''parameters''))
              (str ''String must contain exactly 2 character(s)'')"
    by (simp add: request_def object_issues_violation [symmetric] issues2)
  have params1: "get_prop ?b1 (str ''parameters'') = ?p1" and ident1: "get_prop ?b1 (str ''id'') = JStr (str ''r1'')"
    by (simp_all add: request_def)
  have params2: "get_prop ?b2 (str ''parameters'') = ?p2" and ident2: "get_prop ?b2 (str ''id'') = JStr (str ''r2'')"
    by (simp_all add: request_def)
  note w1 = invalid_parameters_rejected
            [where body = "?b1" and cid = "str ''client-1-abc''" and st = example_sessions
               and ch = open_channel and tls = "tools example_runtime example_collaborators"
               and tool = "?t1" and rt = example_runtime and now = 7 and during_await = id,
             OF a1 nonempty example_live a4 a5 a6]
  note w2 = invalid_parameters_rejected
            [where body = "?b2" and cid = "str ''client-1-abc''" and st = example_sessions
               and ch = open_channel and tls = "tools example_runtime example_collaborators"
               and tool = "?t2" and rt = example_runtime and now = 7 and during_await = id,
             OF b1 nonempty example_live b4 b5 b6]
  have r1: "toolCallHandler example_runtime (tools example_runtime example_collaborators) 7 id
              example_sessions ?b1
     = (example_sessions(str ''client-1-abc'' \<mapsto>
        \<lparr>frames =
           [wire_frame (str ''err-7'')
              (JSON_stringify example_runtime
                 (JObj [(str ''id'', JStr (str ''r1'')), (str ''type'', JStr (str ''error'')),
                        (str ''error_type'', JStr (str ''invalid_parameters'')),
                        (str ''message'',
                           JStr (str ''Parameter validation failed: Number must be less than or equal to 90, Number must be greater than or equal to -180''))]))],
         writes = 1, throws = (\<lambda>n. False)\<rparr>),
      [SseWrite (str ''client-1-abc'')
         (wire_frame (str ''err-7'')
            (JSON_stringify example_runtime
               (JObj [(str ''id'', JStr (str ''r1'')), (str ''type'', JStr (str ''error'')),
                      (str ''error_type'', JStr (str ''invalid_parameters'')),
                      (str ''message'',
                         JStr (str ''Parameter validation failed: Number must be less than or equal to 90, Number must be greater than or equal to -180''))])))
         True,
       HttpReply 400
         (JObj [(str ''id'', JStr (str ''r1'')), (str ''type'', JStr (str ''error'')),
                (str ''error_type'', JStr (str ''invalid_parameters'')),
                (str ''message'',
                   JStr (str ''Parameter validation failed: Number must be less than or equal to 90, Number must be greater than or equal to -180''))])])"
    using w1 by (simp add: Let_def params1 ident1 issues1 open_channel_def str_numeral_7)
  have r2: "snd (toolCallHandler example_runtime (tools example_runtime example_collaborators) 7 id
                  example_sessions ?b2)
     = [SseWrite (str ''client-1-abc'')
          (wire_frame (str ''err-7'')
             (JSON_stringify example_runtime
                (JObj [(str ''id'', JStr (str ''r2'')), (str ''type'', JStr (str ''error'')),
                       (str ''error_type'', JStr (str ''invalid_parameters'')),
                       (str ''message'',
                          JStr (str ''Parameter validation failed: String must contain exactly 2 character(s)''))])))
          True,
        HttpReply 400
          (JObj [(str ''id'', JStr (str ''r2'')), (str ''type'', JStr (str ''error'')),
                 (str ''error_type'', JStr (str ''invalid_parameters'')),
                 (str ''message'',
                    JStr (str ''Parameter validation failed: String must contain exactly 2 character(s)''))])]"
    using w2 by (simp add: Let_def params2 ident2 issues2 open_channel_def str_numeral_7)
  show ?thesis using r1 r2 by simp
qed


subsection \<open>A count out of range\<close>

text \<open>
  C4 as stated does not hold: \<open>brave-web-search\<close> with \<open>count: 25\<close> over a live session
  does write an Event on the session's channel, the \<open>error\<close> Event of the rejection.
\<close>

theorem count_25_event_counterexample:
  "filter is_sse_write
     (snd (toolCallHandler example_runtime (tools example_runtime example_collaborators) 7 id
             example_sessions
             (request (JStr (str ''r1'')) (JStr (str ''brave-web-search''))
                (JObj [(str ''query'', JStr (str ''isabelle'')), (str ''count'', JNum 25)])
                (JStr (str ''client-1-abc'')))))
   = [SseWrite (str ''client-1-abc'')
        (wire_frame (str ''err-7'')
           (JSON_stringify example_runtime
              (JObj [(str ''id'', JStr (str ''r1'')), (str ''type'', JStr (str ''error'')),
                     (str ''error_type'', JStr (str ''invalid_parameters'')),
                     (str ''message'',
                        JStr (str ''Parameter validation failed: Number must be less than or equal to 20''))])))
        True]"
  by (simp add: request_def toolCallHandler_def Let_def session_of_def example_sessions_def brave_tool
        parse_def brave_count_25_issues catch_block_live open_channel_def pushed_frame_def
        str_numeral_7)

text \<open>
  C4, amended. Invoking \<open>brave-web-search\<close> with \<open>count: 25\<close> over a live session
  yields a synchronous 400 reply of \<open>type\<close> \<open>error\<close> and \<open>error_type\<close>
  \<open>invalid_parameters\<close>, whose message is \<open>Parameter validation failed: \<close>
  followed by the issue of \<open>query\<close> (if it has one) and
  \<open>Number must be less than or equal to 20\<close>; the same payload is written as one
  Event on the session's channel before the reply; and these two are the only effects, so
  the tool handler is not called.
\<close>

theorem count_25_rejected:
  assumes "get_prop body (str ''client_id'') = JStr cid" and "cid \<noteq> []" and "st cid = Some ch"
    and "get_prop body (str ''tool_name'') = JStr (str ''brave-web-search'')"
    and "get_prop body (str ''parameters'') = JObj ps"
    and "map_of ps (str ''count'') = Some (JNum 25)"
  shows "(let queryIssues =
                (case get_prop (JObj ps) (str ''query'') of
                   JStr q \<Rightarrow> []
                 | JUndefined \<Rightarrow> [str ''Required'']
                 | v \<Rightarrow> [str (''Expected string, received '' @ json_kind v)]);
              errorPayload =
                JObj [(str ''id'', get_prop body (str ''id'')), (str ''type'', JStr (str ''error'')),
                      (str ''error_type'', JStr (str ''invalid_parameters'')),
                      (str ''message'',
                         JStr (str ''Parameter validation failed: ''
                               @ join (str '', '')
                                   (queryIssues @ [str ''Number must be less than or equal to 20'']))) ];
              frame = wire_frame (str ''err-'' @ str (string_of_nat now)) (JSON_stringify rt errorPayload)
          in toolCallHandler rt (tools rt c) now during_await st body =
               (st(cid \<mapsto>
                     (if throws ch (writes ch) then ch\<lparr>writes := Suc (writes ch)\<rparr>
                      else ch\<lparr>frames := frames ch @ [frame], writes := Suc (writes ch)\<rparr>)),
                [SseWrite cid frame (\<not> throws ch (writes ch)), HttpReply 400 errorPayload]))"
proof -
  have run: "toolCallHandler rt (tools rt c) now during_await st body =
      catch_block rt now st cid (get_prop body (str ''id''))
        (ZodError (object_issues brave_web_search_schema (JObj ps)))"
    using assms
    by (simp add: toolCallHandler_def Let_def session_of_live brave_tool parse_def
          brave_count_25_issues)
  show ?thesis
    unfolding Let_def run
    using assms(3,6)
    by (simp add: catch_block_live Let_def pushed_frame_def res_write_explicit brave_count_25_issues)
qed

theorem count_25_rejected_witness:
  "toolCallHandler example_runtime (tools example_runtime example_collaborators) 7 id example_sessions
     (request (JStr (str ''r1'')) (JStr (str ''brave-web-search''))
        (JObj [(str ''query'', JStr (str ''isabelle'')), (str ''count'', JNum 25)])
        (JStr (str ''client-1-abc'')))
   = (example_sessions(str ''client-1-abc'' \<mapsto>
        \<lparr>frames =
           [wire_frame (str ''err-7'')
              (JSON_stringify example_runtime
                 (JObj [(str ''id'', JStr (str ''r1'')), (str ''type'', JStr (str ''error'')),
                        (str ''error_type'', JStr (str ''invalid_parameters'')),
                        (str ''message'',
                           JStr (str ''Parameter validation failed: Number must be less than or equal to 20''))]))],
         writes = 1, throws = (\<lambda>n. False)\<rparr>),
      [SseWrite (str ''client-1-abc'')
         (wire_frame (str ''err-7'')
            (JSON_stringify example_runtime
               (JObj [(str ''id'', JStr (str ''r1'')), (str ''type'', JStr (str ''error'')),
                      (str ''error_type'', JStr (str ''invalid_parameters'')),
                      (str ''message'',
                         JStr (str ''Parameter validation failed: Number must be less than or equal to 20''))])))
         True,
       HttpReply 400
         (JObj [(str ''id'', JStr (str ''r1'')), (str ''type'', JStr (str ''error'')),
                (str ''error_type'', JStr (str ''invalid_parameters'')),
                (str ''message'',
                   JStr (str ''Parameter validation failed: Number must be less than or equal to 20''))])])"
proof -
  let ?ps = "[(str ''query'', JStr (str ''isabelle'')), (str ''count'', JNum 25)]"
  let ?body = "request (JStr (str ''r1'')) (JStr (str ''brave-web-search'')) (JObj ?ps)
                 (JStr (str ''client-1-abc''))"
  have h1: "get_prop ?body (str ''client_id'') = JStr (str ''client-1-abc'')" by (simp add: request_def)
  have h2: "str ''client-1-abc'' \<noteq> []" by simp
  have h4: "get_prop ?body (str ''tool_name'') = JStr (str ''brave-web-search'')"
    by (simp add: request_def)
  have h5: "get_prop ?body (str ''parameters'') = JObj ?ps" by (simp add: request_def)
  have h6: "map_of ?ps (str ''count'') = Some (JNum 25)" by simp
  have ident: "get_prop ?body (str ''id'') = JStr (str ''r1'')" by (simp add: request_def)
  show ?thesis
    using count_25_rejected
            [where body = "?body" and cid = "str ''client-1-abc''" and st = example_sessions
               and ch = open_channel and ps = "?ps" and rt = example_runtime and now = 7
               and during_await = id and c = example_collaborators,
             OF h1 h2 example_live h4 h5 h6]
    by (simp add: Let_def ident open_channel_def str_numeral_7)
qed


subsection \<open>Removal of sessions\<close>

text \<open>
  C5 as stated does not hold: when the \<^verbatim>\<open>write\<close> of an Event throws inside
  \<^verbatim>\<open>sendSseMessage\<close>, the session token is still in the registry afterwards.
\<close>

theorem failed_push_keeps_session_counterexample:
  "fst (sendSseMessage example_runtime 7 (Map.empty(str ''client-1-abc'' \<mapsto> broken_channel))
          (str ''client-1-abc'') (str ''mcp'') (JObj [(str ''type'', JStr (str ''tool_response''))])
          (str ''toolrsp'')) (str ''client-1-abc'')
     = Some (broken_channel\<lparr>writes := 1\<rparr>)
   \<and> snd (sendSseMessage example_runtime 7 (Map.empty(str ''client-1-abc'' \<mapsto> broken_channel))
          (str ''client-1-abc'') (str ''mcp'') (JObj [(str ''type'', JStr (str ''tool_response''))])
          (str ''toolrsp''))
     = [SseWrite (str ''client-1-abc'')
          (wire_frame (str ''toolrsp-7'')
             (JSON_stringify example_runtime (JObj [(str ''type'', JStr (str ''tool_response''))])))
          False]"
  by (simp add: sendSseMessage_def Let_def res_write_def broken_channel_def sse_message_mcp
        string_of_nat.simps digit_char_def str_append)

text \<open>
  C5, amended. Each of the three listeners (\<open>close\<close> and \<open>error\<close> of the request,
  \<open>error\<close> of the response) removes the session's token from the registry and nothing
  else. After any sequence of these events that is not empty, in any order and with any
  repetition, the registry is the one before the sequence without this token: a listener
  that runs after a listener (itself or another one) changes nothing. When one of the two
  initial writes of the channel-open handler throws, the token is removed there and the
  listeners are not registered. \<^verbatim>\<open>sendSseMessage\<close> never removes a session: the
  registry has the same tokens after it as before, whether its write returns or throws.
\<close>

theorem session_removal:
  "req_on_close cid st = st(cid := None) \<and> req_on_error cid st = st(cid := None)
   \<and> res_on_error cid st = st(cid := None)
   \<and> fold (emit cid) evs st = (if evs = [] then st else st(cid := None))
   \<and> (throws res (writes res) \<or> throws res (Suc (writes res)) \<longrightarrow>
        fst (sse rt hs t0 rnd t1 t2 res st) (new_client_id t0 rnd) = None
        \<and> snd (snd (sse rt hs t0 rnd t1 t2 res st)) = False)
   \<and> dom (fst (sendSseMessage rt now st cid eventName payload messageIdPrefix)) = dom st"
proof (intro conjI impI)
  show "dom (fst (sendSseMessage rt now st cid eventName payload messageIdPrefix)) = dom st"
    by (cases "st cid") (auto simp: sendSseMessage_def Let_def split: prod.splits)
next
  assume "throws res (writes res) \<or> throws res (Suc (writes res))"
  then show "fst (sse rt hs t0 rnd t1 t2 res st) (new_client_id t0 rnd) = None"
    using sse_failed_first [of res rt hs t0 rnd t1 t2 st] sse_failed_second [of res rt hs t0 rnd t1 t2 st]
    by (cases "throws res (writes res)") auto
next
  assume "throws res (writes res) \<or> throws res (Suc (writes res))"
  then show "snd (snd (sse rt hs t0 rnd t1 t2 res st)) = False"
    using sse_failed_first [of res rt hs t0 rnd t1 t2 st] sse_failed_second [of res rt hs t0 rnd t1 t2 st]
    by (cases "throws res (writes res)") auto
next
  show "fold (emit cid) evs st = (if evs = [] then st else st(cid := None))"
    by (rule fold_emit)
qed (simp_all add: req_on_close_def req_on_error_def res_on_error_def)

theorem session_removal_witness:
  "req_on_close (str ''client-1-abc'') example_sessions = Map.empty
   \<and> req_on_error (str ''client-1-abc'') example_sessions = Map.empty
   \<and> res_on_error (str ''client-1-abc'') example_sessions = Map.empty
   \<and> fold (emit (str ''client-1-abc'')) [ResError, ReqError, ReqClose, ReqClose] example_sessions = Map.empty
   \<and> fst (sse example_runtime (mcpHandshakeResponse (tools example_runtime example_collaborators))
            5 (str ''k3x9q'') 5 6 broken_channel example_sessions) (str ''client-5-k3x9q'') = None
   \<and> dom (fst (sendSseMessage example_runtime 7 (Map.empty(str ''client-1-abc'' \<mapsto> broken_channel))
                  (str ''client-1-abc'') (str ''mcp'') JNull (str ''msg''))) = {str ''client-1-abc''}"
proof -
  note w1 = session_removal
          [where cid = "str ''client-1-abc''" and st = example_sessions
             and evs = "[ResError, ReqError, ReqClose, ReqClose]" and res = broken_channel
             and rt = example_runtime
             and hs = "mcpHandshakeResponse (tools example_runtime example_collaborators)"
             and ?t0.0 = 5 and rnd = "str ''k3x9q''" and ?t1.0 = 5 and ?t2.0 = 6]
  note w2 = session_removal
          [where cid = "str ''client-1-abc''"
             and st = "Map.empty(str ''client-1-abc'' \<mapsto> broken_channel)" and rt = example_runtime
             and now = 7 and eventName = "str ''mcp''" and payload = JNull
             and messageIdPrefix = "str ''msg''"]
  have a: "req_on_close (str ''client-1-abc'') example_sessions = Map.empty"
    using w1 [THEN conjunct1] by (simp add: example_sessions_def)
  have b: "req_on_error (str ''client-1-abc'') example_sessions = Map.empty"
    using w1 [THEN conjunct2, THEN conjunct1] by (simp add: example_sessions_def)
  have c: "res_on_error (str ''client-1-abc'') example_sessions = Map.empty"
    using w1 [THEN conjunct2, THEN conjunct2, THEN conjunct1] by (simp add: example_sessions_def)
  have d: "fold (emit (str ''client-1-abc'')) [ResError, ReqError, ReqClose, ReqClose] example_sessions
             = Map.empty"
    using w1 [THEN conjunct2, THEN conjunct2, THEN conjunct2, THEN conjunct1]
    by (simp add: example_sessions_def del: fold_simps)
  have e: "fst (sse example_runtime (mcpHandshakeResponse (tools example_runtime example_collaborators))
            5 (str ''k3x9q'') 5 6 broken_channel example_sessions) (str ''client-5-k3x9q'') = None"
    using w1 [THEN conjunct2, THEN conjunct2, THEN conjunct2, THEN conjunct2, THEN conjunct1]
    by (simp add: broken_channel_def new_client_id_def string_of_nat.simps digit_char_def)
  have f: "dom (fst (sendSseMessage example_runtime 7 (Map.empty(str ''client-1-abc'' \<mapsto> broken_channel))
                  (str ''client-1-abc'') (str ''mcp'') JNull (str ''msg''))) = {str ''client-1-abc''}"
    using w2 [THEN conjunct2, THEN conjunct2, THEN conjunct2, THEN conjunct2, THEN conjunct2]
    by simp
  show ?thesis using a b c d e f by blast
qed


subsection \<open>The wire frame\<close>

text \<open>
  C6. The frame the server writes is the three fields \<open>id: \<close>, \<open>event: \<close> and
  \<open>data: \<close>, each followed by the two characters backslash and \<open>n\<close>, with these
  two characters once more at the end. The frame of a payload without a line feed has no
  line feed at all, so it is not three lines and a blank line.
\<close>

theorem frame_separator_is_backslash_n:
  "sse_message msgId eventName dataString =
     str ''id: '' @ msgId @ str [CHR 0x5C, CHR ''n''] @ str ''event: '' @ eventName
     @ str [CHR 0x5C, CHR ''n''] @ str ''data: '' @ dataString
     @ str [CHR 0x5C, CHR ''n'', CHR 0x5C, CHR ''n'']
   \<and> of_char (CHR 0x0A) \<notin> set (sse_message (str ''msg-7'') (str ''mcp'') (str ''{}''))"
  by (simp add: sse_message_def backslash_n_def str_def)


subsection \<open>Missing and unknown client identities\<close>





subsection \<open>Channel open\<close>

text \<open>
  C8. On every channel open whose two writes return, exactly two Events are written, in
  this order. The first frame has the identifier \<open>sse-handshake-\<close> and the time, the
  event category \<open>mcp\<close>, and as data the serialised handshake payload, whose \<open>type\<close>
  is \<open>mcp_handshake_response\<close> and whose capability list names the four registered
  tools. The second frame has the identifier \<open>sse-clientid-\<close> and the time, the event
  category \<open>mcp\<close>, and as data the serialised payload with \<open>type\<close>
  \<open>client_id_assigned\<close> and, as \<open>client_id\<close>, the session's token. The token is
  \<open>client-\<close>, the time, a hyphen and the random suffix, so it is not empty, and the
  session is registered under it with the two frames at the end of its channel. (The
  fields of a frame are separated as C6 says.)
\<close>

theorem channel_open_events:
  assumes "\<not> throws res (writes res)" and "\<not> throws res (Suc (writes res))"
  shows "(let clientId = str ''client-'' @ str (string_of_nat t0) @ str ''-'' @ rnd;
              handshake = mcpHandshakeResponse (tools rt c);
              handshakeMessage =
                str ''id: sse-handshake-'' @ str (string_of_nat t1) @ str [CHR 0x5C, CHR ''n'']
                @ str ''event: mcp'' @ str [CHR 0x5C, CHR ''n'']
                @ str ''data: '' @ JSON_stringify rt handshake
                @ str [CHR 0x5C, CHR ''n'', CHR 0x5C, CHR ''n''];
              clientIdMessage =
                str ''id: sse-clientid-'' @ str (string_of_nat t2) @ str [CHR 0x5C, CHR ''n'']
                @ str ''event: mcp'' @ str [CHR 0x5C, CHR ''n'']
                @ str ''data: ''
                @ JSON_stringify rt
                    (JObj [(str ''type'', JStr (str ''client_id_assigned'')),
                           (str ''client_id'', JStr clientId)])
                @ str [CHR 0x5C, CHR ''n'', CHR 0x5C, CHR ''n'']
          in sse rt handshake t0 rnd t1 t2 res st =
               (st(clientId \<mapsto> res\<lparr>frames := frames res @ [handshakeMessage, clientIdMessage],
                                    writes := Suc (Suc (writes res))\<rparr>),
                [SseWrite clientId handshakeMessage True, SseWrite clientId clientIdMessage True], True)
             \<and> get_prop handshake (str ''type'') = JStr (str ''mcp_handshake_response'')
             \<and> map entry_name (capability_list handshake)
                 = [JStr (str ''get-alerts''), JStr (str ''get-forecast''),
                    JStr (str ''brave-web-search''), JStr (str ''google-search'')]
             \<and> clientId \<noteq> [])"
proof -
  have names: "map entry_name (capability_list (mcpHandshakeResponse (tools rt c)))
      = [JStr (str ''get-alerts''), JStr (str ''get-forecast''),
         JStr (str ''brave-web-search''), JStr (str ''google-search'')]"
    by (simp add: capability_list_handshake tools_eq entry_name_tool_entry)
  have ty: "get_prop (mcpHandshakeResponse (tools rt c)) (str ''type'') = JStr (str ''mcp_handshake_response'')"
    by (simp add: mcpHandshakeResponse_def)
  have run: "sse rt (mcpHandshakeResponse (tools rt c)) t0 rnd t1 t2 res st =
      (st(new_client_id t0 rnd \<mapsto>
            res\<lparr>frames := frames res @
                   [sse_message (str ''sse-handshake-'' @ str (string_of_nat t1)) (str ''mcp'')
                      (JSON_stringify rt (mcpHandshakeResponse (tools rt c))),
                    sse_message (str ''sse-clientid-'' @ str (string_of_nat t2)) (str ''mcp'')
                      (JSON_stringify rt (JObj [(str ''type'', JStr (str ''client_id_assigned'')),
                                               (str ''client_id'', JStr (new_client_id t0 rnd))]))],
                 writes := Suc (Suc (writes res))\<rparr>),
       [SseWrite (new_client_id t0 rnd)
          (sse_message (str ''sse-handshake-'' @ str (string_of_nat t1)) (str ''mcp'')
             (JSON_stringify rt (mcpHandshakeResponse (tools rt c)))) True,
        SseWrite (new_client_id t0 rnd)
          (sse_message (str ''sse-clientid-'' @ str (string_of_nat t2)) (str ''mcp'')
             (JSON_stringify rt (JObj [(str ''type'', JStr (str ''client_id_assigned'')),
                                      (str ''client_id'', JStr (new_client_id t0 rnd))]))) True],
       True)"
    using assms by (simp add: sse_def Let_def res_write_def)
  have ne: "new_client_id t0 rnd \<noteq> []" by (simp add: new_client_id_def)
  show ?thesis
    unfolding Let_def
    using run names ty ne
    by (simp add: new_client_id_def sse_message_def backslash_n_def)
qed

theorem channel_open_events_witness:
  "sse example_runtime (mcpHandshakeResponse (tools example_runtime example_collaborators)) 5
      (str ''k3x9q'') 5 6 open_channel Map.empty
   = (Map.empty(str ''client-5-k3x9q'' \<mapsto>
         \<lparr>frames =
            [wire_frame (str ''sse-handshake-5'')
               (JSON_stringify example_runtime
                  (mcpHandshakeResponse (tools example_runtime example_collaborators))),
             wire_frame (str ''sse-clientid-6'')
               (JSON_stringify example_runtime
                  (JObj [(str ''type'', JStr (str ''client_id_assigned'')),
                         (str ''client_id'', JStr (str ''client-5-k3x9q''))]))],
          writes = 2, throws = (\<lambda>n. False)\<rparr>),
      [SseWrite (str ''client-5-k3x9q'')
         (wire_frame (str ''sse-handshake-5'')
            (JSON_stringify example_runtime
               (mcpHandshakeResponse (tools example_runtime example_collaborators))))
         True,
       SseWrite (str ''client-5-k3x9q'')
         (wire_frame (str ''sse-clientid-6'')
            (JSON_stringify example_runtime
               (JObj [(str ''type'', JStr (str ''client_id_assigned'')),
                      (str ''client_id'', JStr (str ''client-5-k3x9q''))])))
         True],
      True)"
proof -
  have h1: "\<not> throws open_channel (writes open_channel)" by (simp add: open_channel_def)
  have h2: "\<not> throws open_channel (Suc (writes open_channel))" by (simp add: open_channel_def)
  show ?thesis
    using channel_open_events
            [where res = open_channel and ?t0.0 = 5 and rnd = "str ''k3x9q''" and c = example_collaborators
               and ?t1.0 = 5 and rt = example_runtime and ?t2.0 = 6 and st = Map.empty,
             OF h1 h2]
    by (simp add: Let_def string_of_nat.simps digit_char_def open_channel_def numeral_2_eq_2
          wire_frame_def)
qed


subsection \<open>An empty list of alerts\<close>

text \<open>
  C9. For an invocation of \<open>get-alerts\<close> over a live session with a \<open>state\<close> of two
  code units, where the weather service answers the request for the upper-cased state
  with a successful response that has no alert features, the gateway calls the handler,
  writes one Event whose payload has \<open>type\<close> \<open>tool_response\<close> and whose
  \<open>tool_response\<close> is the text \<open>No active alerts for \<close> followed by what the
  runtime's \<^verbatim>\<open>toUpperCase\<close> makes of the state, and replies 202: a success result,
  not an error. On a runtime that capitalises ASCII as JavaScript does, and for a state of
  ASCII, the text is \<open>No active alerts for \<close> followed by the state with its letters
  \<open>a\<close> to \<open>z\<close> turned into capitals.
\<close>

theorem no_active_alerts:
  assumes "get_prop body (str ''client_id'') = JStr cid" and "cid \<noteq> []" and "st cid = Some ch"
    and "during_await st cid = Some ch'"
    and "get_prop body (str ''tool_name'') = JStr (str ''get-alerts'')"
    and "get_prop body (str ''parameters'') = JObj ps"
    and "map_of ps (str ''state'') = Some (JStr state)"
    and "length state = 2"
    and "fetch_alerts c (NWS_API_BASE c @ str ''/alerts?area='' @ String_toUpperCase rt state)
           = FetchResponse True code (Some alertsData)"
    and "features alertsData = None \<or> features alertsData = Some []"
  shows "snd (toolCallHandler rt (tools rt c) now during_await st body) =
           [HandlerCall (JStr (str ''get-alerts'')) (JObj [(str ''state'', JStr state)]),
            SseWrite cid
              (wire_frame (str ''toolrsp-'' @ str (string_of_nat now))
                 (JSON_stringify rt
                    (JObj [(str ''id'', get_prop body (str ''id'')),
                           (str ''type'', JStr (str ''tool_response'')),
                           (str ''tool_name'', JStr (str ''get-alerts'')),
                           (str ''tool_response'',
                              JObj [(str ''type'', JStr (str ''text'')),
                                    (str ''text'',
                                       JStr (str ''No active alerts for '' @ String_toUpperCase rt state))])])))
              (\<not> throws ch' (writes ch')),
            HttpReply 202
              (JObj [(str ''id'', get_prop body (str ''id'')), (str ''status'', JStr (str ''processing'')),
                     (str ''message'', JStr (str ''Tool call accepted, response will be sent via SSE.''))])]
         \<and> (upper_cases_ascii rt \<and> (\<forall>u\<in>set state. u < 128) \<longrightarrow>
              filter is_sse_write (snd (toolCallHandler rt (tools rt c) now during_await st body)) =
                [SseWrite cid
                   (wire_frame (str ''toolrsp-'' @ str (string_of_nat now))
                      (JSON_stringify rt
                         (JObj [(str ''id'', get_prop body (str ''id'')),
                                (str ''type'', JStr (str ''tool_response'')),
                                (str ''tool_name'', JStr (str ''get-alerts'')),
                                (str ''tool_response'',
                                   JObj [(str ''type'', JStr (str ''text'')),
                                         (str ''text'',
                                            JStr (str ''No active alerts for '' @ map ascii_upper state))])])))
                   (\<not> throws ch' (writes ch'))])"
proof -
  have h: "get_alerts_handler rt (NWS_API_BASE c) (fetch_alerts c) (JObj [(str ''state'', JStr state)])
             = Resolved (text_result (str ''No active alerts for '' @ String_toUpperCase rt state))"
    using assms(9,10) by (auto simp: get_alerts_handler_def Let_def makeNWSRequest_def)
  have run: "snd (toolCallHandler rt (tools rt c) now during_await st body) =
           [HandlerCall (JStr (str ''get-alerts'')) (JObj [(str ''state'', JStr state)]),
            SseWrite cid
              (wire_frame (str ''toolrsp-'' @ str (string_of_nat now))
                 (JSON_stringify rt
                    (JObj [(str ''id'', get_prop body (str ''id'')),
                           (str ''type'', JStr (str ''tool_response'')),
                           (str ''tool_name'', JStr (str ''get-alerts'')),
                           (str ''tool_response'',
                              JObj [(str ''type'', JStr (str ''text'')),
                                    (str ''text'',
                                       JStr (str ''No active alerts for '' @ String_toUpperCase rt state))])])))
              (\<not> throws ch' (writes ch')),
            HttpReply 202
              (JObj [(str ''id'', get_prop body (str ''id'')), (str ''status'', JStr (str ''processing'')),
                     (str ''message'', JStr (str ''Tool call accepted, response will be sent via SSE.''))])]"
    using assms(1-8)
    by (simp add: toolCallHandler_def Let_def session_of_live get_alerts_tool get_alerts_parse h
          sendSseMessage_live text_result_def pushed_frame_def)
  have up: "String_toUpperCase rt state = map ascii_upper state"
    if "upper_cases_ascii rt \<and> (\<forall>u\<in>set state. u < 128)"
    using that by (simp add: upper_cases_ascii_def)
  show ?thesis
    unfolding run using up by simp
qed

theorem no_active_alerts_witness:
  "snd (toolCallHandler example_runtime (tools example_runtime example_collaborators) 7 id
          example_sessions
          (request (JStr (str ''r1'')) (JStr (str ''get-alerts'')) (JObj [(str ''state'', JStr (str ''zz''))])
             (JStr (str ''client-1-abc''))))
   = [HandlerCall (JStr (str ''get-alerts'')) (JObj [(str ''state'', JStr (str ''zz''))]),
      SseWrite (str ''client-1-abc'')
        (wire_frame (str ''toolrsp-7'')
           (JSON_stringify example_runtime
              (JObj [(str ''id'', JStr (str ''r1'')), (str ''type'', JStr (str ''tool_response'')),
                     (str ''tool_name'', JStr (str ''get-alerts'')),
                     (str ''tool_response'',
                        JObj [(str ''type'', JStr (str ''text'')),
                              (str ''text'', JStr (str ''No active alerts for ZZ''))])])))
        True,
      HttpReply 202
        (JObj [(str ''id'', JStr (str ''r1'')), (str ''status'', JStr (str ''processing'')),
               (str ''message'', JStr (str ''Tool call accepted, response will be sent via SSE.''))])]
   \<and> snd (toolCallHandler example_runtime (tools example_runtime example_collaborators) 7 id
          example_sessions
          (request (JStr (str ''r2'')) (JStr (str ''get-alerts'')) (JObj [(str ''state'', JStr (str ''ZZ''))])
             (JStr (str ''client-1-abc''))))
   = [HandlerCall (JStr (str ''get-alerts'')) (JObj [(str ''state'', JStr (str ''ZZ''))]),
      SseWrite (str ''client-1-abc'')
        (wire_frame (str ''toolrsp-7'')
           (JSON_stringify example_runtime
              (JObj [(str ''id'', JStr (str ''r2'')), (str ''type'', JStr (str ''tool_response'')),
                     (str ''tool_name'', JStr (str ''get-alerts'')),
                     (str ''tool_response'',
                        JObj [(str ''type'', JStr (str ''text'')),
                              (str ''text'', JStr (str ''No active alerts for ZZ''))])])))
        True,
      HttpReply 202
        (JObj [(str ''id'', JStr (str ''r2'')), (str ''status'', JStr (str ''processing'')),
               (str ''message'', JStr (str ''Tool call accepted, response will be sent via SSE.''))])]
   \<and> filter is_sse_write
       (snd (toolCallHandler example_runtime (tools example_runtime example_collaborators) 7 id
          example_sessions
          (request (JStr (str ''r1'')) (JStr (str ''get-alerts'')) (JObj [(str ''state'', JStr (str ''zz''))])
             (JStr (str ''client-1-abc'')))))
   = [SseWrite (str ''client-1-abc'')
        (wire_frame (str ''toolrsp-7'')
           (JSON_stringify example_runtime
              (JObj [(str ''id'', JStr (str ''r1'')), (str ''type'', JStr (str ''tool_response'')),
                     (str ''tool_name'', JStr (str ''get-alerts'')),
                     (str ''tool_response'',
                        JObj [(str ''type'', JStr (str ''text'')),
                              (str ''text'', JStr (str ''No active alerts for ZZ''))])])))
        True]"
proof -
  let ?b1 = "request (JStr (str ''r1'')) (JStr (str ''get-alerts'')) (JObj [(str ''state'', JStr (str ''zz''))])
             (JStr (str ''client-1-abc''))"
  let ?b2 = "request (JStr (str ''r2'')) (JStr (str ''get-alerts'')) (JObj [(str ''state'', JStr (str ''ZZ''))])
             (JStr (str ''client-1-abc''))"
  have h2: "str ''client-1-abc'' \<noteq> []" by simp
  have h4: "id example_sessions (str ''client-1-abc'') = Some open_channel" by (simp add: example_live)
  have a1: "get_prop ?b1 (str ''client_id'') = JStr (str ''client-1-abc'')"
    and a5: "get_prop ?b1 (str ''tool_name'') = JStr (str ''get-alerts'')"
    and a6: "get_prop ?b1 (str ''parameters'') = JObj [(str ''state'', JStr (str ''zz''))]"
    and aid: "get_prop ?b1 (str ''id'') = JStr (str ''r1'')"
    by (simp_all add: request_def)
  have b1: "get_prop ?b2 (str ''client_id'') = JStr (str ''client-1-abc'')"
    and b5: "get_prop ?b2 (str ''tool_name'') = JStr (str ''get-alerts'')"
    and b6: "get_prop ?b2 (str ''parameters'') = JObj [(str ''state'', JStr (str ''ZZ''))]"
    and bid: "get_prop ?b2 (str ''id'') = JStr (str ''r2'')"
    by (simp_all add: request_def)
  have a7: "map_of [(str ''state'', JStr (str ''zz''))] (str ''state'') = Some (JStr (str ''zz''))" by simp
  have b7: "map_of [(str ''state'', JStr (str ''ZZ''))] (str ''state'') = Some (JStr (str ''ZZ''))" by simp
  have a8: "length (str ''zz'') = 2" and b8: "length (str ''ZZ'') = 2" by simp_all
  have f: "fetch_alerts example_collaborators
              (NWS_API_BASE example_collaborators @ str ''/alerts?area='' @ String_toUpperCase example_runtime s)
            = FetchResponse True 200 (Some \<lparr>features = Some []\<rparr>)" for s
    by (simp add: example_collaborators_def)
  have h10: "features \<lparr>features = Some []\<rparr> = None
             \<or> features \<lparr>features = Some ([] :: AlertFeature list)\<rparr> = Some []"
    by simp
  note w1 = no_active_alerts
            [where body = "?b1" and cid = "str ''client-1-abc''" and st = example_sessions
               and ch = open_channel and ch' = open_channel and during_await = id
               and ps = "[(str ''state'', JStr (str ''zz''))]" and state = "str ''zz''"
               and c = example_collaborators and code = 200 and alertsData = "\<lparr>features = Some []\<rparr>"
               and rt = example_runtime and now = 7,
             OF a1 h2 example_live h4 a5 a6 a7 a8 f h10]
  note w2 = no_active_alerts
            [where body = "?b2" and cid = "str ''client-1-abc''" and st = example_sessions
               and ch = open_channel and ch' = open_channel and during_await = id
               and ps = "[(str ''state'', JStr (str ''ZZ''))]" and state = "str ''ZZ''"
               and c = example_collaborators and code = 200 and alertsData = "\<lparr>features = Some []\<rparr>"
               and rt = example_runtime and now = 7,
             OF b1 h2 example_live h4 b5 b6 b7 b8 f h10]
  have r1: "snd (toolCallHandler example_runtime (tools example_runtime example_collaborators) 7 id
                   example_sessions ?b1)
   = [HandlerCall (JStr (str ''get-alerts'')) (JObj [(str ''state'', JStr (str ''zz''))]),
      SseWrite (str ''client-1-abc'')
        (wire_frame (str ''toolrsp-7'')
           (JSON_stringify example_runtime
              (JObj [(str ''id'', JStr (str ''r1'')), (str ''type'', JStr (str ''tool_response'')),
                     (str ''tool_name'', JStr (str ''get-alerts'')),
                     (str ''tool_response'',
                        JObj [(str ''type'', JStr (str ''text'')),
                              (str ''text'', JStr (str ''No active alerts for ZZ''))])])))
        True,
      HttpReply 202
        (JObj [(str ''id'', JStr (str ''r1'')), (str ''status'', JStr (str ''processing'')),
               (str ''message'', JStr (str ''Tool call accepted, response will be sent via SSE.''))])]"
    using w1 [THEN conjunct1]
    by (simp add: aid example_upper upper_zz open_channel_def str_numeral_7)
  have r2: "snd (toolCallHandler example_runtime (tools example_runtime example_collaborators) 7 id
                   example_sessions ?b2)
   = [HandlerCall (JStr (str ''get-alerts'')) (JObj [(str ''state'', JStr (str ''ZZ''))]),
      SseWrite (str ''client-1-abc'')
        (wire_frame (str ''toolrsp-7'')
           (JSON_stringify example_runtime
              (JObj [(str ''id'', JStr (str ''r2'')), (str ''type'', JStr (str ''tool_response'')),
                     (str ''tool_name'', JStr (str ''get-alerts'')),
                     (str ''tool_response'',
                        JObj [(str ''type'', JStr (str ''text'')),
                              (str ''text'', JStr (str ''No active alerts for ZZ''))])])))
        True,
      HttpReply 202
        (JObj [(str ''id'', JStr (str ''r2'')), (str ''status'', JStr (str ''processing'')),
               (str ''message'', JStr (str ''Tool call accepted, response will be sent via SSE.''))])]"
    using w2 [THEN conjunct1]
    by (simp add: bid example_upper upper_ZZ open_channel_def str_numeral_7)
  have ascii: "upper_cases_ascii example_runtime \<and> (\<forall>u\<in>set (str ''zz''). u < 128)"
    by (simp add: example_upper_cases_ascii str_def)
  have r3: "filter is_sse_write
       (snd (toolCallHandler example_runtime (tools example_runtime example_collaborators) 7 id
          example_sessions ?b1))
   = [SseWrite (str ''client-1-abc'')
        (wire_frame (str ''toolrsp-7'')
           (JSON_stringify example_runtime
              (JObj [(str ''id'', JStr (str ''r1'')), (str ''type'', JStr (str ''tool_response'')),
                     (str ''tool_name'', JStr (str ''get-alerts'')),
                     (str ''tool_response'',
                        JObj [(str ''type'', JStr (str ''text'')),
                              (str ''text'', JStr (str ''No active alerts for ZZ''))])])))
        True]"
    using w1 [THEN conjunct2, THEN mp, OF ascii]
    by (simp add: aid upper_zz open_channel_def str_numeral_7)
  show ?thesis using r1 r2 r3 by blast
qed


subsection \<open>A request without a tool name\<close>

text \<open>
  C10. For every invocation request with the \<open>client_id\<close> of a live session whose
  body has no \<open>tool_name\<close> field, the gateway writes one Event on that session's
  channel and then replies 400, both with the same payload of \<open>type\<close> \<open>error\<close>,
  \<open>error_type\<close> \<open>unknown_tool\<close> (not \<open>invalid_parameters\<close> or a missing-field
  error) and the message \<open>Tool 'undefined' not found.\<close>; these are the only effects.
\<close>

theorem omitted_tool_name_is_unknown_tool:
  assumes "get_prop body (str ''client_id'') = JStr cid" and "cid \<noteq> []" and "st cid = Some ch"
    and "\<not> has_key body (str ''tool_name'')"
  shows "(let errorPayload =
                JObj [(str ''id'', get_prop body (str ''id'')), (str ''type'', JStr (str ''error'')),
                      (str ''error_type'', JStr (str ''unknown_tool'')),
                      (str ''message'', JStr (str ''Tool 'undefined' not found.''))];
              frame = wire_frame (str ''err-'' @ str (string_of_nat now)) (JSON_stringify rt errorPayload)
          in toolCallHandler rt tls now during_await st body =
               (st(cid \<mapsto>
                     (if throws ch (writes ch) then ch\<lparr>writes := Suc (writes ch)\<rparr>
                      else ch\<lparr>frames := frames ch @ [frame], writes := Suc (writes ch)\<rparr>)),
                [SseWrite cid frame (\<not> throws ch (writes ch)), HttpReply 400 errorPayload]))"
proof -
  have tn: "get_prop body (str ''tool_name'') = JUndefined"
    using assms(4) by (cases body) (auto simp: has_key_def split: option.splits)
  show ?thesis
    using assms(1-3)
    by (simp add: toolCallHandler_def Let_def tn session_of_live sendSseMessage_live pushed_frame_def
          res_write_explicit)
qed

theorem omitted_tool_name_is_unknown_tool_witness:
  "toolCallHandler example_runtime (tools example_runtime example_collaborators) 7 id example_sessions
     (JObj [(str ''id'', JStr (str ''r1'')), (str ''parameters'', JObj [(str ''state'', JStr (str ''CA''))]),
            (str ''client_id'', JStr (str ''client-1-abc''))])
   = (example_sessions(str ''client-1-abc'' \<mapsto>
        \<lparr>frames =
           [wire_frame (str ''err-7'')
              (JSON_stringify example_runtime
                 (JObj [(str ''id'', JStr (str ''r1'')), (str ''type'', JStr (str ''error'')),
                        (str ''error_type'', JStr (str ''unknown_tool'')),
                        (str ''message'', JStr (str ''Tool 'undefined' not found.''))]))],
         writes = 1, throws = (\<lambda>n. False)\<rparr>),
      [SseWrite (str ''client-1-abc'')
         (wire_frame (str ''err-7'')
            (JSON_stringify example_runtime
               (JObj [(str ''id'', JStr (str ''r1'')), (str ''type'', JStr (str ''error'')),
                      (str ''error_type'', JStr (str ''unknown_tool'')),
                      (str ''message'', JStr (str ''Tool 'undefined' not found.''))])))
         True,
       HttpReply 400
         (JObj [(str ''id'', JStr (str ''r1'')), (str ''type'', JStr (str ''error'')),
                (str ''error_type'', JStr (str ''unknown_tool'')),
                (str ''message'', JStr (str ''Tool 'undefined' not found.''))])])"
proof -
  let ?body = "JObj [(str ''id'', JStr (str ''r1'')),
                     (str ''parameters'', JObj [(str ''state'', JStr (str ''CA''))]),
                     (str ''client_id'', JStr (str ''client-1-abc''))]"
  have h1: "get_prop ?body (str ''client_id'') = JStr (str ''client-1-abc'')" by simp
  have h2: "str ''client-1-abc'' \<noteq> []" by simp
  have h4: "\<not> has_key ?body (str ''tool_name'')" by (simp add: has_key_def)
  show ?thesis
    using omitted_tool_name_is_unknown_tool
            [where body = "?body" and cid = "str ''client-1-abc''" and st = example_sessions
               and ch = open_channel and rt = example_runtime and now = 7 and during_await = id
               and tls = "tools example_runtime example_collaborators",
             OF h1 h2 example_live h4]
    by (simp add: Let_def open_channel_def str_numeral_7)
qed

end
